theory Spec2Isabelle
  imports Main "HOL-Library.Word" "HOL-Library.Sublist"
begin

section \<open>JavaScript values\<close>

text \<open>
  A JavaScript string is a sequence of UTF-16 code units. The regular expressions of
  \<open>CrossOriginStorage\<close> carry no \<open>u\<close> flag, so they work on code units, and two of
  the four line terminators (U+2028, U+2029) lie outside Latin-1: the code unit is
  therefore a 16-bit word. A byte of an \<open>ArrayBuffer\<close> is an 8-bit word.
\<close>

type_synonym code_unit = "16 word"
type_synonym ustring = "code_unit list"
type_synonym byte = "8 word"

definition ustr :: "string \<Rightarrow> ustring" where
  \<comment> \<open>an ASCII literal of the source as code units\<close>
  "ustr s = map of_char s"

datatype js_error = ReferenceError | TypeError | DOMException string

text \<open>
  A \<open>Blob\<close> is its MIME type and what \<open>blob.arrayBuffer()\<close> settles to; a
  \<open>Response\<close> is what \<open>response.blob()\<close> settles to (\<open>new Response(blob)\<close> is
  \<open>Response (Inr blob)\<close>); the response of \<open>fetch\<close> is its status and what
  \<open>response.text()\<close> settles to. A rejection is \<open>Inl\<close>.
\<close>

datatype blob = Blob (mime: ustring) (arrayBuffer: "js_error + byte list")

datatype response = Response (response_blob: "js_error + blob")

record fetch_response =
  status :: nat
  body_text :: "js_error + ustring"

record content_hash =
  algorithm :: ustring
  "value" :: ustring

definition HASH_ALGORITHM :: ustring where
  "HASH_ALGORITHM = ustr ''SHA-256''"

section \<open>The host environment\<close>

text \<open>
  Everything \<open>CrossOriginStorage\<close> reaches outside itself: the global \<open>navigator\<close>,
  \<open>fetch\<close>, \<open>crypto.subtle.digest\<close> and the cross-origin storage backend with its
  file handles and writable streams. The backend has a state of its own, of type \<open>'s\<close>;
  handles (\<open>'h\<close>) and writable streams (\<open>'ws\<close>) are opaque.
\<close>

record ('s, 'h, 'ws) world =
  navigator_defined :: bool
  crossOriginStorage_in_navigator :: bool
  fetch :: "ustring \<Rightarrow> js_error + fetch_response"
  subtle_digest :: "ustring \<Rightarrow> byte list \<Rightarrow> js_error + byte list"
  requestFileHandles :: "content_hash list \<Rightarrow> bool \<Rightarrow> 's \<Rightarrow> (js_error + 'h list) \<times> 's"
  getFile :: "'h \<Rightarrow> 's \<Rightarrow> (js_error + blob) \<times> 's"
  createWritable :: "'h \<Rightarrow> 's \<Rightarrow> (js_error + 'ws) \<times> 's"
  "write" :: "'ws \<Rightarrow> blob \<Rightarrow> 's \<Rightarrow> (js_error + unit) \<times> 's"
  close :: "'ws \<Rightarrow> 's \<Rightarrow> (js_error + unit) \<times> 's"

text \<open>The calls that leave the adapter, in the order they are made.\<close>

datatype ('h, 'ws) call =
    Fetch ustring
  | Digest ustring "byte list"
  | RequestFileHandles "content_hash list" bool
  | GetFile 'h
  | CreateWritable 'h
  | Write 'ws blob
  | Close 'ws

record ('s, 'h, 'ws) run =
  backend :: 's
  calls :: "('h, 'ws) call list"

type_synonym ('a, 's, 'h, 'ws) promise =
  "('s, 'h, 'ws) run \<Rightarrow> (js_error + 'a) \<times> ('s, 'h, 'ws) run"

definition resolve :: "'a \<Rightarrow> ('a, 's, 'h, 'ws) promise" where
  "resolve x = (\<lambda>st. (Inr x, st))"

definition reject :: "js_error \<Rightarrow> ('a, 's, 'h, 'ws) promise" where
  "reject e = (\<lambda>st. (Inl e, st))"

definition settled :: "js_error + 'a \<Rightarrow> ('a, 's, 'h, 'ws) promise" where
  \<comment> \<open>a method of a value in hand, whose outcome the value carries\<close>
  "settled r = (\<lambda>st. (r, st))"

definition await :: "('a, 's, 'h, 'ws) promise \<Rightarrow> ('a \<Rightarrow> ('b, 's, 'h, 'ws) promise)
    \<Rightarrow> ('b, 's, 'h, 'ws) promise" where
  \<comment> \<open>\<open>const x = await m; ...\<close> and \<open>m.then(f)\<close>: a rejection skips the rest\<close>
  "await m f = (\<lambda>st. case m st of (Inl e, st') \<Rightarrow> (Inl e, st') | (Inr x, st') \<Rightarrow> f x st')"

definition try_catch :: "('a, 's, 'h, 'ws) promise \<Rightarrow> (js_error \<Rightarrow> ('a, 's, 'h, 'ws) promise)
    \<Rightarrow> ('a, 's, 'h, 'ws) promise" where
  "try_catch m h = (\<lambda>st. case m st of (Inl e, st') \<Rightarrow> h e st' | (Inr x, st') \<Rightarrow> (Inr x, st'))"

definition call_fetch :: "('s, 'h, 'ws) world \<Rightarrow> ustring \<Rightarrow> (fetch_response, 's, 'h, 'ws) promise" where
  "call_fetch w url = (\<lambda>st. (fetch w url, st\<lparr>calls := calls st @ [Fetch url]\<rparr>))"

definition call_digest :: "('s, 'h, 'ws) world \<Rightarrow> ustring \<Rightarrow> byte list
    \<Rightarrow> (byte list, 's, 'h, 'ws) promise" where
  "call_digest w alg bytes =
     (\<lambda>st. (subtle_digest w alg bytes, st\<lparr>calls := calls st @ [Digest alg bytes]\<rparr>))"

definition call_requestFileHandles :: "('s, 'h, 'ws) world \<Rightarrow> content_hash list \<Rightarrow> bool
    \<Rightarrow> ('h list, 's, 'h, 'ws) promise" where
  \<comment> \<open>\<open>navigator.crossOriginStorage.requestFileHandles(hashes, {create})\<close>: without
      \<open>navigator\<close> the name does not resolve, without the property the method is read
      from \<open>undefined\<close>; in both cases nothing is called\<close>
  "call_requestFileHandles w hashes create =
     (\<lambda>st. if \<not> navigator_defined w then (Inl ReferenceError, st)
           else if \<not> crossOriginStorage_in_navigator w then (Inl TypeError, st)
           else (case requestFileHandles w hashes create (backend st) of
                   (r, b) \<Rightarrow> (r, \<lparr>backend = b,
                                  calls = calls st @ [RequestFileHandles hashes create]\<rparr>)))"

definition first_of :: "'a list \<Rightarrow> 'a option" where
  \<comment> \<open>\<open>const [handle] = array\<close>: \<open>undefined\<close> (\<open>None\<close>) for an empty array\<close>
  "first_of xs = (case xs of [] \<Rightarrow> None | x # _ \<Rightarrow> Some x)"

definition call_getFile :: "('s, 'h, 'ws) world \<Rightarrow> 'h option \<Rightarrow> (blob, 's, 'h, 'ws) promise" where
  "call_getFile w handle =
     (\<lambda>st. case handle of
              None \<Rightarrow> (Inl TypeError, st)
            | Some h \<Rightarrow> (case getFile w h (backend st) of
                          (r, b) \<Rightarrow> (r, \<lparr>backend = b, calls = calls st @ [GetFile h]\<rparr>)))"

definition call_createWritable :: "('s, 'h, 'ws) world \<Rightarrow> 'h option \<Rightarrow> ('ws, 's, 'h, 'ws) promise" where
  "call_createWritable w handle =
     (\<lambda>st. case handle of
              None \<Rightarrow> (Inl TypeError, st)
            | Some h \<Rightarrow> (case createWritable w h (backend st) of
                          (r, b) \<Rightarrow> (r, \<lparr>backend = b, calls = calls st @ [CreateWritable h]\<rparr>)))"

definition call_write :: "('s, 'h, 'ws) world \<Rightarrow> 'ws \<Rightarrow> blob \<Rightarrow> (unit, 's, 'h, 'ws) promise" where
  "call_write w ws b =
     (\<lambda>st. case write w ws b (backend st) of
              (r, b') \<Rightarrow> (r, \<lparr>backend = b', calls = calls st @ [Write ws b]\<rparr>))"

definition call_close :: "('s, 'h, 'ws) world \<Rightarrow> 'ws \<Rightarrow> (unit, 's, 'h, 'ws) promise" where
  "call_close w ws =
     (\<lambda>st. case close w ws (backend st) of
              (r, b') \<Rightarrow> (r, \<lparr>backend = b', calls = calls st @ [Close ws]\<rparr>))"

section \<open>String operations of the source\<close>

fun str_includes :: "ustring \<Rightarrow> ustring \<Rightarrow> bool" where
  \<comment> \<open>\<open>s.includes(pat)\<close>; also \<open>/pat/.test(s)\<close> for a pattern of literal characters\<close>
  "str_includes [] pat = (pat = [])"
| "str_includes (c # cs) pat = (prefix pat (c # cs) \<or> str_includes cs pat)"

fun replace_first :: "ustring \<Rightarrow> ustring \<Rightarrow> ustring \<Rightarrow> ustring" where
  \<comment> \<open>\<open>s.replace(/pat/, rep)\<close> for a pattern of literal characters, no \<open>g\<close> flag, and a
      replacement without \<open>$\<close>: the first occurrence only\<close>
  "replace_first pat rep [] = (if pat = [] then rep else [])"
| "replace_first pat rep (c # cs) =
     (if prefix pat (c # cs) then rep @ drop (length pat) (c # cs)
      else c # replace_first pat rep cs)"

subsection \<open>The pointer pattern \<open>/.*?\n^oid sha256:(\w+)\n.*?$/gm\<close>\<close>

text \<open>
  A backtracking matcher in continuation-passing style, one combinator for each piece of
  the pattern. The cursor is the code unit before the current position (\<open>None\<close> at the
  start of the input, needed by \<open>^\<close>) and the rest of the input. A continuation returns
  \<open>None\<close> when the rest of the pattern fails, which makes the piece before it try its next
  alternative, as the backtracking of the source's engine does.
\<close>

definition is_line_terminator :: "code_unit \<Rightarrow> bool" where
  \<comment> \<open>LF, CR, LINE SEPARATOR, PARAGRAPH SEPARATOR\<close>
  "is_line_terminator c = (c = 0x0A \<or> c = 0x0D \<or> c = 0x2028 \<or> c = 0x2029)"

definition is_word_char :: "code_unit \<Rightarrow> bool" where
  \<comment> \<open>\<open>\w\<close>: \<open>[A-Za-z0-9_]\<close>\<close>
  "is_word_char c = ((0x30 \<le> c \<and> c \<le> 0x39) \<or> (0x41 \<le> c \<and> c \<le> 0x5A) \<or> c = 0x5F
                     \<or> (0x61 \<le> c \<and> c \<le> 0x7A))"

fun lazy_dots :: "(code_unit option \<Rightarrow> ustring \<Rightarrow> 'a option) \<Rightarrow> code_unit option \<Rightarrow> ustring
    \<Rightarrow> 'a option" where
  \<comment> \<open>\<open>.*?\<close>: first the rest of the pattern here; failing that, one more code unit that
      is not a line terminator\<close>
  "lazy_dots k p [] = k p []"
| "lazy_dots k p (c # cs) =
     (case k p (c # cs) of
        Some r \<Rightarrow> Some r
      | None \<Rightarrow> if is_line_terminator c then None else lazy_dots k (Some c) cs)"

fun literal :: "ustring \<Rightarrow> (code_unit option \<Rightarrow> ustring \<Rightarrow> 'a option) \<Rightarrow> code_unit option
    \<Rightarrow> ustring \<Rightarrow> 'a option" where
  \<comment> \<open>a run of literal characters, such as \<open>\n\<close> and \<open>oid sha256:\<close>\<close>
  "literal [] k p s = k p s"
| "literal (x # xs) k p [] = None"
| "literal (x # xs) k p (c # cs) = (if c = x then literal xs k (Some c) cs else None)"

definition bol :: "(code_unit option \<Rightarrow> ustring \<Rightarrow> 'a option) \<Rightarrow> code_unit option \<Rightarrow> ustring
    \<Rightarrow> 'a option" where
  \<comment> \<open>\<open>^\<close> under the \<open>m\<close> flag: start of input, or just after a line terminator\<close>
  "bol k p s = (case p of
                  None \<Rightarrow> k p s
                | Some c \<Rightarrow> if is_line_terminator c then k p s else None)"

definition eol :: "(code_unit option \<Rightarrow> ustring \<Rightarrow> 'a option) \<Rightarrow> code_unit option \<Rightarrow> ustring
    \<Rightarrow> 'a option" where
  \<comment> \<open>\<open>$\<close> under the \<open>m\<close> flag: end of input, or just before a line terminator\<close>
  "eol k p s = (case s of
                  [] \<Rightarrow> k p s
                | c # _ \<Rightarrow> if is_line_terminator c then k p s else None)"

fun word_star :: "(ustring \<Rightarrow> code_unit option \<Rightarrow> ustring \<Rightarrow> 'a option) \<Rightarrow> ustring
    \<Rightarrow> code_unit option \<Rightarrow> ustring \<Rightarrow> 'a option" where
  \<comment> \<open>the greedy tail of \<open>(\w+)\<close>: as many word characters as possible, one fewer each
      time the rest of the pattern fails; \<open>acc\<close> is the capture so far\<close>
  "word_star k acc p [] = k acc p []"
| "word_star k acc p (c # cs) =
     (if is_word_char c
      then (case word_star k (acc @ [c]) (Some c) cs of
              Some r \<Rightarrow> Some r
            | None \<Rightarrow> k acc p (c # cs))
      else k acc p (c # cs))"

definition word_plus :: "(ustring \<Rightarrow> code_unit option \<Rightarrow> ustring \<Rightarrow> 'a option)
    \<Rightarrow> code_unit option \<Rightarrow> ustring \<Rightarrow> 'a option" where
  \<comment> \<open>\<open>(\w+)\<close>: at least one word character\<close>
  "word_plus k p s = (case s of
                        [] \<Rightarrow> None
                      | c # cs \<Rightarrow> if is_word_char c then word_star k [c] (Some c) cs else None)"

definition oid_regex_exec :: "code_unit option \<Rightarrow> ustring
    \<Rightarrow> (ustring \<times> code_unit option \<times> ustring) option" where
  \<comment> \<open>one match attempt at the cursor: capture group 1 and the cursor after the match\<close>
  "oid_regex_exec =
     lazy_dots (literal [0x0A] (bol (literal (ustr ''oid sha256:'')
       (word_plus (\<lambda>capture. literal [0x0A] (lazy_dots (eol
          (\<lambda>p s. Some (capture, p, s)))))))))"

fun replace_oid :: "code_unit option \<Rightarrow> ustring \<Rightarrow> ustring" where
  \<comment> \<open>\<open>text.replace(/.*?\n^oid sha256:(\w+)\n.*?$/gm, "$1")\<close>: scanning from the left,
      every match is replaced by its capture and every other code unit is copied; after
      an empty match the scan moves one code unit on\<close>
  "replace_oid p [] = (case oid_regex_exec p [] of None \<Rightarrow> [] | Some (capture, _, _) \<Rightarrow> capture)"
| "replace_oid p (c # cs) =
     (case oid_regex_exec p (c # cs) of
        None \<Rightarrow> c # replace_oid (Some c) cs
      | Some (capture, p', rest) \<Rightarrow>
          if length rest < Suc (length cs) then capture @ replace_oid p' rest
          else capture @ c # replace_oid (Some c) cs)"

definition or_null :: "ustring \<Rightarrow> ustring option" where
  \<comment> \<open>\<open>s || null\<close>: the empty string is falsy; \<open>None\<close> is \<open>null\<close>\<close>
  "or_null s = (if s = [] then None else Some s)"

subsection \<open>Hexadecimal formatting\<close>

definition digit_char :: "nat \<Rightarrow> code_unit" where
  \<comment> \<open>the digits of \<open>Number.prototype.toString(radix)\<close>\<close>
  "digit_char d = ustr ''0123456789abcdefghijklmnopqrstuvwxyz'' ! d"

fun toString16 :: "nat \<Rightarrow> ustring" where
  \<comment> \<open>\<open>n.toString(16)\<close> for a non-negative integer: no leading zeros, \<open>"0"\<close> for zero\<close>
  "toString16 n = (if n < 16 then [digit_char n]
                   else toString16 (n div 16) @ [digit_char (n mod 16)])"

definition padStart :: "nat \<Rightarrow> ustring \<Rightarrow> ustring \<Rightarrow> ustring" where
  \<comment> \<open>\<open>s.padStart(n, fill)\<close>\<close>
  "padStart n fill s =
     (if n \<le> length s \<or> fill = [] then s
      else take (n - length s) (concat (replicate (n - length s) fill)) @ s)"

definition join_empty :: "ustring list \<Rightarrow> ustring" where
  \<comment> \<open>\<open>parts.join("")\<close>\<close>
  "join_empty parts = concat parts"

section \<open>CrossOriginStorage\<close>

definition isAvailable :: "('s, 'h, 'ws) world \<Rightarrow> bool" where
  "isAvailable w = (navigator_defined w \<and> crossOriginStorage_in_navigator w)"

definition getFileHash :: "('s, 'h, 'ws) world \<Rightarrow> ustring \<Rightarrow> (ustring option, 's, 'h, 'ws) promise" where
  "getFileHash w url =
     (if str_includes url (ustr ''/resolve/main/onnx/'') then
        await (await (call_fetch w (replace_first (ustr ''/resolve/'') (ustr ''/raw/'') url))
                 (\<lambda>response. settled (body_text response)))
          (\<lambda>text.
             if \<not> str_includes text (ustr ''oid sha256:'') then resolve None
             else resolve (or_null (replace_oid None text)))
      else resolve None)"

definition match_try :: "('s, 'h, 'ws) world \<Rightarrow> content_hash
    \<Rightarrow> (response option, 's, 'h, 'ws) promise" where
  \<comment> \<open>the body of the \<open>try\<close> block of \<open>match\<close>\<close>
  "match_try w hash =
     await (call_requestFileHandles w [hash] False)
       (\<lambda>handles. await (call_getFile w (first_of handles))
          (\<lambda>blob. resolve (Some (Response (Inr blob)))))"

definition match :: "('s, 'h, 'ws) world \<Rightarrow> ustring \<Rightarrow> (response option, 's, 'h, 'ws) promise" where
  \<comment> \<open>the result \<open>None\<close> is \<open>undefined\<close>; \<open>!hashValue\<close> holds of \<open>null\<close> and of the
      empty string\<close>
  "match w request =
     await (getFileHash w request)
       (\<lambda>hashValue.
          case hashValue of
            None \<Rightarrow> resolve None
          | Some v \<Rightarrow>
              if v = [] then resolve None
              else try_catch (match_try w \<lparr>algorithm = HASH_ALGORITHM, value = v\<rparr>)
                     (\<lambda>err. resolve None))"

definition getBlobHash :: "('s, 'h, 'ws) world \<Rightarrow> blob \<Rightarrow> (content_hash, 's, 'h, 'ws) promise" where
  "getBlobHash w blob =
     await (settled (arrayBuffer blob))
       (\<lambda>arrayBuffer. await (call_digest w (ustr ''SHA-256'') arrayBuffer)
          (\<lambda>hashBuffer.
             resolve \<lparr>algorithm = ustr ''SHA-256'',
                      value = join_empty
                        (map (\<lambda>byte. padStart 2 (ustr ''0'') (toString16 (unat byte)))
                           hashBuffer)\<rparr>))"

definition put :: "('s, 'h, 'ws) world \<Rightarrow> ustring \<Rightarrow> response \<Rightarrow> (unit, 's, 'h, 'ws) promise" where
  "put w request response =
     await (settled (response_blob response))
       (\<lambda>blob. await (getBlobHash w blob)
          (\<lambda>hash. await (call_requestFileHandles w [hash] True)
             (\<lambda>handles. await (call_createWritable w (first_of handles))
                (\<lambda>writableStream. await (call_write w writableStream blob)
                   (\<lambda>_. call_close w writableStream)))))"

section \<open>Observations on a run\<close>

definition new_calls :: "('s, 'h, 'ws) run \<Rightarrow> ('s, 'h, 'ws) run \<Rightarrow> ('h, 'ws) call list" where
  \<comment> \<open>the calls made between two moments of a run\<close>
  "new_calls st st' = drop (length (calls st)) (calls st')"

fun is_network_call :: "('h, 'ws) call \<Rightarrow> bool" where
  "is_network_call (Fetch url) = True"
| "is_network_call c = False"

fun is_backend_call :: "('h, 'ws) call \<Rightarrow> bool" where
  "is_backend_call (Fetch url) = False"
| "is_backend_call (Digest alg bytes) = False"
| "is_backend_call c = True"

fun is_read_only_call :: "('h, 'ws) call \<Rightarrow> bool" where
  \<comment> \<open>neither a handle request with \<open>create\<close>, nor opening, writing or closing a stream\<close>
  "is_read_only_call (RequestFileHandles hashes create) = (\<not> create)"
| "is_read_only_call (CreateWritable h) = False"
| "is_read_only_call (Write ws b) = False"
| "is_read_only_call (Close ws) = False"
| "is_read_only_call c = True"

subsection \<open>The hexadecimal encoding of a digest, as the specification words it\<close>

definition spec_hex_digit :: "nat \<Rightarrow> code_unit" where
  "spec_hex_digit d = ustr ''0123456789abcdef'' ! d"

definition spec_hex_byte :: "byte \<Rightarrow> ustring" where
  \<comment> \<open>exactly two lowercase hexadecimal characters, the high nibble first\<close>
  "spec_hex_byte b = [spec_hex_digit (unat b div 16), spec_hex_digit (unat b mod 16)]"

definition spec_hex :: "byte list \<Rightarrow> ustring" where
  \<comment> \<open>the bytes' encodings concatenated in byte order\<close>
  "spec_hex digest = concat (map spec_hex_byte digest)"

subsection \<open>An example environment\<close>

text \<open>
  A backend that keeps its files in an association list, hands out the hash itself as
  handle and as stream, and stores on \<open>write\<close>; \<open>crypto.subtle.digest\<close> is replaced by a
  toy checksum (the sum of the bytes and their number). \<open>fetch\<close> is a parameter.
\<close>

type_synonym example_store = "(content_hash \<times> blob) list"

definition toy_digest :: "ustring \<Rightarrow> byte list \<Rightarrow> js_error + byte list" where
  "toy_digest alg bytes =
     (if alg = ustr ''SHA-256'' then Inr [sum_list bytes, of_nat (length bytes)]
      else Inl (DOMException ''NotSupportedError''))"

definition example_world :: "bool \<Rightarrow> (ustring \<Rightarrow> js_error + fetch_response)
    \<Rightarrow> (example_store, content_hash, content_hash) world" where
  "example_world present f =
     \<lparr>navigator_defined = True,
      crossOriginStorage_in_navigator = present,
      fetch = f,
      subtle_digest = toy_digest,
      requestFileHandles = (\<lambda>hashes create s.
         if create \<or> list_all (\<lambda>h. map_of s h \<noteq> None) hashes then (Inr hashes, s)
         else (Inl (DOMException ''NotFoundError''), s)),
      getFile = (\<lambda>h s. (case map_of s h of
                           None \<Rightarrow> Inl (DOMException ''NotFoundError'')
                         | Some b \<Rightarrow> Inr b, s)),
      createWritable = (\<lambda>h s. (Inr h, s)),
      write = (\<lambda>ws b s. (Inr (), (ws, b) # s)),
      close = (\<lambda>ws s. (Inr (), s))\<rparr>"

definition fetch_fails :: "ustring \<Rightarrow> js_error + fetch_response" where
  \<comment> \<open>the network is down: \<open>fetch\<close> rejects with a \<open>TypeError\<close>\<close>
  "fetch_fails url = Inl TypeError"

definition fetch_serves :: "ustring \<Rightarrow> ustring \<Rightarrow> ustring \<Rightarrow> js_error + fetch_response" where
  \<comment> \<open>a server with one text resource\<close>
  "fetch_serves location text url =
     (if url = location then Inr \<lparr>status = 200, body_text = Inr text\<rparr>
      else Inr \<lparr>status = 404, body_text = Inr (ustr ''Not Found'')\<rparr>)"

definition model_url :: ustring where
  "model_url = ustr ''https://hf.co/m/resolve/main/onnx/model.onnx''"

definition model_raw_url :: ustring where
  "model_raw_url = ustr ''https://hf.co/m/raw/main/onnx/model.onnx''"

definition config_url :: ustring where
  "config_url = ustr ''https://hf.co/m/resolve/main/config.json''"

definition empty_run :: "(example_store, content_hash, content_hash) run" where
  "empty_run = \<lparr>backend = [], calls = []\<rparr>"

definition html_text :: ustring where
  \<comment> \<open>a companion text that is no pointer record\<close>
  "html_text = ustr ''<html>Not Found</html>''"

definition pointer_text :: ustring where
  \<comment> \<open>a pointer record of three lines, without a final line terminator\<close>
  "pointer_text = ustr ''version https://git-lfs.github.com/spec/v1'' @ [0x0A]
     @ ustr ''oid sha256:'' @ ustr ''deadbeef'' @ [0x0A] @ ustr ''size 12345''"

definition upper_pointer_text :: ustring where
  \<comment> \<open>the same shape, the digest in upper case\<close>
  "upper_pointer_text = ustr ''version v1'' @ [0x0A]
     @ ustr ''oid sha256:ABCDEF'' @ [0x0A] @ ustr ''size 12345''"

definition lfs_pointer_text :: ustring where
  \<comment> \<open>a pointer record as it is served: every line ends with a line feed\<close>
  "lfs_pointer_text = ustr ''version https://git-lfs.github.com/spec/v1'' @ [0x0A]
     @ ustr ''oid sha256:deadbeef'' @ [0x0A] @ ustr ''size 12345'' @ [0x0A]"

definition example_blob :: blob where
  "example_blob = Blob (ustr ''application/octet-stream'') (Inr [1, 2, 3])"

definition example_text_blob :: blob where
  \<comment> \<open>the same bytes under another MIME type\<close>
  "example_text_blob = Blob (ustr ''text/plain'') (Inr [1, 2, 3])"

definition example_key :: content_hash where
  \<comment> \<open>the toy checksum of the bytes 1, 2, 3 is 6, 3\<close>
  "example_key = \<lparr>algorithm = ustr ''SHA-256'', value = ustr ''0603''\<rparr>"

definition quota_world :: "(example_store, content_hash, content_hash) world" where
  \<comment> \<open>the example backend with no room left: every \<open>write\<close> rejects\<close>
  "quota_world =
     (example_world True fetch_fails)
       \<lparr>write := (\<lambda>ws b s. (Inl (DOMException ''QuotaExceededError''), s))\<rparr>"

definition cursor_after :: "code_unit option \<Rightarrow> ustring \<Rightarrow> code_unit option" where
  \<comment> \<open>the code unit before the cursor once \<open>s\<close> has been read\<close>
  "cursor_after p s = (if s = [] then p else Some (last s))"

fun requested_hashes :: "('h, 'ws) call list \<Rightarrow> content_hash list list" where
  \<comment> \<open>the keys asked of the backend, in order\<close>
  "requested_hashes [] = []"
| "requested_hashes (RequestFileHandles hashes create # cs) = hashes # requested_hashes cs"
| "requested_hashes (c # cs) = requested_hashes cs"

definition hex_digit_value :: "code_unit \<Rightarrow> nat" where
  \<comment> \<open>the number a lowercase hexadecimal character stands for\<close>
  "hex_digit_value c =
     (if 0x30 \<le> c \<and> c \<le> 0x39 then unat c - 48
      else if 0x61 \<le> c \<and> c \<le> 0x66 then unat c - 87
      else 0)"

definition deadbeef_key :: content_hash where
  "deadbeef_key = \<lparr>algorithm = ustr ''SHA-256'', value = ustr ''deadbeef''\<rparr>"

definition deadbeef_run :: "(example_store, content_hash, content_hash) run" where
  \<comment> \<open>a backend that holds one file, stored under the bare digest\<close>
  "deadbeef_run = \<lparr>backend = [(deadbeef_key, example_blob)], calls = []\<rparr>"

definition unreadable_world :: "(example_store, content_hash, content_hash) world" where
  \<comment> \<open>the example backend whose files cannot be read: every \<open>getFile\<close> rejects\<close>
  "unreadable_world =
     (example_world True (fetch_serves model_raw_url pointer_text))
       \<lparr>getFile := (\<lambda>h s. (Inl (DOMException ''NotReadableError''), s))\<rparr>"

definition close_fails_world :: "(example_store, content_hash, content_hash) world" where
  \<comment> \<open>the example backend whose streams cannot be finalized: every \<open>close\<close> rejects\<close>
  "close_fails_world =
     (example_world True fetch_fails)
       \<lparr>close := (\<lambda>ws s. (Inl (DOMException ''InvalidStateError''), s))\<rparr>"

section \<open>Basic facts\<close>

lemmas promise_defs = resolve_def reject_def settled_def await_def try_catch_def

lemma config_url_ineligible: "\<not> str_includes config_url (ustr ''/resolve/main/onnx/'')"
  by (simp add: config_url_def ustr_def)

lemma model_url_eligible: "str_includes model_url (ustr ''/resolve/main/onnx/'')"
  by (simp add: model_url_def ustr_def)

lemma model_url_raw:
  "replace_first (ustr ''/resolve/'') (ustr ''/raw/'') model_url = model_raw_url"
  by (simp add: model_url_def model_raw_url_def ustr_def)

section \<open>The hash resolver\<close>

text \<open>
  Claim C7. For a location that does not contain \<open>/resolve/main/onnx/\<close>, \<open>_getFileHash\<close>
  resolves to \<open>null\<close> and leaves the run as it was: in particular no \<open>fetch\<close> is logged,
  so no network call was made.
\<close>

theorem getFileHash_ineligible_no_fetch:
  assumes "\<not> str_includes url (ustr ''/resolve/main/onnx/'')"
  shows "getFileHash w url st = (Inr None, st)"
  using assms by (simp add: getFileHash_def resolve_def)

theorem getFileHash_ineligible_no_fetch_witness:
  "\<not> str_includes config_url (ustr ''/resolve/main/onnx/'')
   \<and> getFileHash (example_world True fetch_fails) config_url empty_run = (Inr None, empty_run)"
proof -
  have h: "\<not> str_includes config_url (ustr ''/resolve/main/onnx/'')"
    by (rule config_url_ineligible)
  show ?thesis
    using h getFileHash_ineligible_no_fetch [OF h, of "example_world True fetch_fails" empty_run]
    by simp
qed

lemma getFileHash_run:
  "snd (getFileHash w url st) =
     st\<lparr>calls := calls st @ (if str_includes url (ustr ''/resolve/main/onnx/'')
        then [Fetch (replace_first (ustr ''/resolve/'') (ustr ''/raw/'') url)] else [])\<rparr>"
  by (simp add: getFileHash_def promise_defs call_fetch_def split: sum.splits)

lemma getFileHash_result:
  assumes "str_includes url (ustr ''/resolve/main/onnx/'')"
  shows "fst (getFileHash w url st) =
     (case fetch w (replace_first (ustr ''/resolve/'') (ustr ''/raw/'') url) of
        Inl e \<Rightarrow> Inl e
      | Inr r \<Rightarrow> (case body_text r of
           Inl e \<Rightarrow> Inl e
         | Inr body \<Rightarrow> if \<not> str_includes body (ustr ''oid sha256:'') then Inr None
                        else Inr (or_null (replace_oid None body))))"
  using assms by (simp add: getFileHash_def promise_defs call_fetch_def split: sum.splits)

lemma match_rejects_with_getFileHash:
  "fst (getFileHash w url st) = Inl e \<Longrightarrow> fst (match w url st) = Inl e"
  by (cases "getFileHash w url st") (simp add: match_def await_def)

text \<open>
  Claim C1, as amended. For a location that contains \<open>/resolve/main/onnx/\<close>: when the
  companion fetch resolves (with whatever status) and its text lacks \<open>oid sha256:\<close>,
  \<open>_getFileHash\<close> resolves to \<open>null\<close> and \<open>match\<close> to \<open>undefined\<close>; when \<open>fetch\<close> rejects,
  or reading the text rejects, \<open>_getFileHash\<close> rejects with that error and so does
  \<open>match\<close>, which awaits it outside its \<open>try\<close> block.
\<close>

theorem getFileHash_marker_absent_or_fetch_rejected:
  assumes "str_includes url (ustr ''/resolve/main/onnx/'')"
  shows "(\<forall>r body. fetch w (replace_first (ustr ''/resolve/'') (ustr ''/raw/'') url) = Inr r
            \<and> body_text r = Inr body \<and> \<not> str_includes body (ustr ''oid sha256:'')
          \<longrightarrow> fst (getFileHash w url st) = Inr None \<and> fst (match w url st) = Inr None)
       \<and> (\<forall>e. fetch w (replace_first (ustr ''/resolve/'') (ustr ''/raw/'') url) = Inl e
          \<longrightarrow> fst (getFileHash w url st) = Inl e \<and> fst (match w url st) = Inl e)
       \<and> (\<forall>r e. fetch w (replace_first (ustr ''/resolve/'') (ustr ''/raw/'') url) = Inr r
            \<and> body_text r = Inl e
          \<longrightarrow> fst (getFileHash w url st) = Inl e \<and> fst (match w url st) = Inl e)"
proof (intro conjI allI impI)
  fix r body
  assume "fetch w (replace_first (ustr ''/resolve/'') (ustr ''/raw/'') url) = Inr r
            \<and> body_text r = Inr body \<and> \<not> str_includes body (ustr ''oid sha256:'')"
  then show g: "fst (getFileHash w url st) = Inr None"
    by (simp add: getFileHash_result [OF assms])
  then show "fst (match w url st) = Inr None"
    by (cases "getFileHash w url st") (simp add: match_def await_def resolve_def)
next
  fix e
  assume "fetch w (replace_first (ustr ''/resolve/'') (ustr ''/raw/'') url) = Inl e"
  then show g: "fst (getFileHash w url st) = Inl e"
    by (simp add: getFileHash_result [OF assms])
  then show "fst (match w url st) = Inl e"
    by (rule match_rejects_with_getFileHash)
next
  fix r e
  assume "fetch w (replace_first (ustr ''/resolve/'') (ustr ''/raw/'') url) = Inr r
            \<and> body_text r = Inl e"
  then show g: "fst (getFileHash w url st) = Inl e"
    by (simp add: getFileHash_result [OF assms])
  then show "fst (match w url st) = Inl e"
    by (rule match_rejects_with_getFileHash)
qed

theorem getFileHash_marker_absent_or_fetch_rejected_witness:
  "str_includes model_url (ustr ''/resolve/main/onnx/'')
   \<and> fetch (example_world True (fetch_serves config_url html_text))
        (replace_first (ustr ''/resolve/'') (ustr ''/raw/'') model_url)
       = Inr \<lparr>status = 404, body_text = Inr (ustr ''Not Found'')\<rparr>
   \<and> \<not> str_includes (ustr ''Not Found'') (ustr ''oid sha256:'')
   \<and> fst (getFileHash (example_world True (fetch_serves config_url html_text)) model_url empty_run)
       = Inr None
   \<and> fst (match (example_world True (fetch_serves config_url html_text)) model_url empty_run)
       = Inr None
   \<and> fetch (example_world True fetch_fails)
        (replace_first (ustr ''/resolve/'') (ustr ''/raw/'') model_url) = Inl TypeError
   \<and> fst (getFileHash (example_world True fetch_fails) model_url empty_run) = Inl TypeError"
proof -
  have f1: "fetch (example_world True (fetch_serves config_url html_text))
        (replace_first (ustr ''/resolve/'') (ustr ''/raw/'') model_url)
       = Inr \<lparr>status = 404, body_text = Inr (ustr ''Not Found'')\<rparr>"
    by (simp add: model_url_raw example_world_def fetch_serves_def)
       (simp add: model_raw_url_def config_url_def ustr_def)
  have n: "\<not> str_includes (ustr ''Not Found'') (ustr ''oid sha256:'')"
    by (simp add: ustr_def)
  have f2: "fetch (example_world True fetch_fails)
        (replace_first (ustr ''/resolve/'') (ustr ''/raw/'') model_url) = Inl TypeError"
    by (simp add: example_world_def fetch_fails_def)
  note t1 = getFileHash_marker_absent_or_fetch_rejected [OF model_url_eligible,
      of "example_world True (fetch_serves config_url html_text)" empty_run]
  note t2 = getFileHash_marker_absent_or_fetch_rejected [OF model_url_eligible,
      of "example_world True fetch_fails" empty_run]
  from t1 f1 n
  have a: "fst (getFileHash (example_world True (fetch_serves config_url html_text))
                  model_url empty_run) = Inr None
         \<and> fst (match (example_world True (fetch_serves config_url html_text))
                  model_url empty_run) = Inr None"
    by simp
  from t2 f2
  have b: "fst (getFileHash (example_world True fetch_fails) model_url empty_run) = Inl TypeError"
    by blast
  show ?thesis using model_url_eligible f1 n a f2 b by simp
qed

text \<open>
  The claim as first stated fails: with the network down, \<open>fetch\<close> rejects, and both
  \<open>_getFileHash\<close> and \<open>match\<close> reject with the same \<open>TypeError\<close> instead of resolving to
  \<open>null\<close>.
\<close>

theorem getFileHash_fetch_rejected_counterexample:
  "str_includes model_url (ustr ''/resolve/main/onnx/'')
   \<and> fetch (example_world True fetch_fails)
        (replace_first (ustr ''/resolve/'') (ustr ''/raw/'') model_url) = Inl TypeError
   \<and> fst (getFileHash (example_world True fetch_fails) model_url empty_run) = Inl TypeError
   \<and> fst (match (example_world True fetch_fails) model_url empty_run) = Inl TypeError"
proof -
  have f: "fetch (example_world True fetch_fails)
        (replace_first (ustr ''/resolve/'') (ustr ''/raw/'') model_url) = Inl TypeError"
    by (simp add: example_world_def fetch_fails_def)
  have g: "fst (getFileHash (example_world True fetch_fails) model_url empty_run) = Inl TypeError"
    by (simp add: getFileHash_result [OF model_url_eligible] f)
  show ?thesis
    using model_url_eligible f g match_rejects_with_getFileHash [OF g] by simp
qed

lemma new_calls_append: "calls st' = calls st @ cs \<Longrightarrow> new_calls st st' = cs"
  by (simp add: new_calls_def)

lemma str_includes_append: "str_includes (a @ m @ b) m"
proof (induction a)
  case Nil
  have "str_includes xs m" if "prefix m xs" for xs
    using that by (cases xs) auto
  then show ?case by simp
next
  case (Cons c a)
  then show ?case by simp
qed

subsection \<open>The pointer pattern on a pointer record of three lines\<close>

lemma cursor_after_Cons: "cursor_after p (c # w) = cursor_after (Some c) w"
  by (simp add: cursor_after_def)

lemma lazy_dots_skip:
  assumes "\<And>c p s. c \<in> set pre \<Longrightarrow> \<not> is_line_terminator c \<and> k p (c # s) = None"
  shows "lazy_dots k p (pre @ s) = lazy_dots k (cursor_after p pre) s"
  using assms
proof (induction pre arbitrary: p)
  case Nil
  show ?case by (simp add: cursor_after_def)
next
  case (Cons c pre)
  have "lazy_dots k p ((c # pre) @ s) = lazy_dots k (Some c) (pre @ s)"
    using Cons.prems [of c p "pre @ s"] by simp
  also have "\<dots> = lazy_dots k (cursor_after (Some c) pre) s"
    using Cons.prems by (intro Cons.IH) simp
  finally show ?case by (simp add: cursor_after_def)
qed

lemma lazy_dots_stop:
  "is_line_terminator c \<Longrightarrow> lazy_dots k p (c # cs) = k p (c # cs)"
  by (cases "k p (c # cs)") simp_all

lemma literal_append: "literal lit k p (lit @ s) = k (cursor_after p lit) s"
  by (induction lit arbitrary: p) (simp_all add: cursor_after_def)

lemma word_star_greedy:
  assumes "\<forall>c \<in> set w. is_word_char c"
      and "s = [] \<or> \<not> is_word_char (hd s)"
      and "k (acc @ w) (cursor_after p w) s = Some r"
  shows "word_star k acc p (w @ s) = Some r"
  using assms
proof (induction w arbitrary: acc p)
  case Nil
  then show ?case by (cases s) (simp_all add: cursor_after_def)
next
  case (Cons c w)
  have "word_star k (acc @ [c]) (Some c) (w @ s) = Some r"
    using Cons.prems by (intro Cons.IH) (simp_all add: cursor_after_Cons)
  then show ?case using Cons.prems(1) by simp
qed

lemma word_plus_greedy:
  assumes "w \<noteq> []" and "\<forall>c \<in> set w. is_word_char c"
      and "s = [] \<or> \<not> is_word_char (hd s)"
      and "k w (Some (last w)) s = Some r"
  shows "word_plus k p (w @ s) = Some r"
proof -
  obtain c w' where w: "w = c # w'" using assms(1) by (cases w) auto
  have "word_star k ([] @ [c]) (Some c) (w' @ s) = Some r"
    using assms by (intro word_star_greedy) (auto simp: w cursor_after_def)
  then show ?thesis using assms(2) by (simp add: word_plus_def w)
qed

lemma oid_regex_exec_pointer:
  assumes pre: "\<forall>c \<in> set pre. \<not> is_line_terminator c"
      and post: "\<forall>c \<in> set post. \<not> is_line_terminator c"
      and digest: "digest \<noteq> []" "\<forall>c \<in> set digest. is_word_char c"
  shows "oid_regex_exec p (pre @ [0x0A] @ ustr ''oid sha256:'' @ digest @ [0x0A] @ post)
       = Some (digest, cursor_after (Some 0x0A) post, [])"
proof -
  let ?k4 = "\<lambda>capture. literal [0x0A] (lazy_dots (eol (\<lambda>p s. Some (capture, p, s))))"
  let ?k0 = "literal [0x0A] (bol (literal (ustr ''oid sha256:'') (word_plus ?k4)))"
  have lf: "is_line_terminator 0x0A" by (simp add: is_line_terminator_def)
  have nw: "\<not> is_word_char 0x0A" by (simp add: is_word_char_def)
  have tail: "lazy_dots (eol (\<lambda>p s. Some (digest, p, s))) (Some 0x0A) post
       = Some (digest, cursor_after (Some 0x0A) post, [])"
  proof -
    have "lazy_dots (eol (\<lambda>p s. Some (digest, p, s))) (Some 0x0A) (post @ [])
       = lazy_dots (eol (\<lambda>p s. Some (digest, p, s))) (cursor_after (Some 0x0A) post) []"
      using post by (intro lazy_dots_skip) (simp add: eol_def)
    then show ?thesis by (simp add: eol_def)
  qed
  have k4: "?k4 digest (Some (last digest)) ([0x0A] @ post)
       = Some (digest, cursor_after (Some 0x0A) post, [])"
    by (simp add: tail)
  have wp: "word_plus ?k4 q (digest @ [0x0A] @ post)
       = Some (digest, cursor_after (Some 0x0A) post, [])" for q
    using digest nw k4 by (intro word_plus_greedy) simp_all
  have k0: "?k0 q ([0x0A] @ ustr ''oid sha256:'' @ digest @ [0x0A] @ post)
       = Some (digest, cursor_after (Some 0x0A) post, [])" for q
  proof -
    have "?k0 q ([0x0A] @ ustr ''oid sha256:'' @ digest @ [0x0A] @ post)
        = literal (ustr ''oid sha256:'') (word_plus ?k4) (Some 0x0A)
            (ustr ''oid sha256:'' @ digest @ [0x0A] @ post)"
      by (simp add: bol_def lf)
    also have "\<dots> = word_plus ?k4 (cursor_after (Some 0x0A) (ustr ''oid sha256:''))
           (digest @ [0x0A] @ post)"
      by (rule literal_append)
    finally show ?thesis by (simp only: wp)
  qed
  have "oid_regex_exec p (pre @ [0x0A] @ ustr ''oid sha256:'' @ digest @ [0x0A] @ post)
      = lazy_dots ?k0 (cursor_after p pre)
          ([0x0A] @ ustr ''oid sha256:'' @ digest @ [0x0A] @ post)"
    unfolding oid_regex_exec_def
  proof (rule lazy_dots_skip)
    fix c q s assume "c \<in> set pre"
    then have "\<not> is_line_terminator c" using pre by blast
    moreover from this have "c \<noteq> 0x0A" using lf by auto
    ultimately show "\<not> is_line_terminator c \<and> ?k0 q (c # s) = None" by simp
  qed
  also have "\<dots> = ?k0 (cursor_after p pre)
      ([0x0A] @ ustr ''oid sha256:'' @ digest @ [0x0A] @ post)"
    by (simp only: append_Cons append_Nil lazy_dots_stop [OF lf])
  finally show ?thesis by (simp only: k0)
qed

lemma oid_regex_exec_end: "oid_regex_exec p [] = None"
  by (simp add: oid_regex_exec_def)

lemma replace_oid_pointer:
  assumes pre: "\<forall>c \<in> set pre. \<not> is_line_terminator c"
      and post: "\<forall>c \<in> set post. \<not> is_line_terminator c"
      and digest: "digest \<noteq> []" "\<forall>c \<in> set digest. is_word_char c"
  shows "replace_oid None (pre @ [0x0A] @ ustr ''oid sha256:'' @ digest @ [0x0A] @ post) = digest"
proof -
  obtain c cs where t: "pre @ [0x0A] @ ustr ''oid sha256:'' @ digest @ [0x0A] @ post = c # cs"
    by (cases "pre @ [0x0A] @ ustr ''oid sha256:'' @ digest @ [0x0A] @ post") auto
  have "oid_regex_exec None (c # cs) = Some (digest, cursor_after (Some 0x0A) post, [])"
    using oid_regex_exec_pointer [OF assms, of None] by (simp only: t)
  then have "replace_oid None (c # cs) = digest"
    by (simp add: oid_regex_exec_end)
  then show ?thesis by (simp only: t)
qed

subsection \<open>What \<open>match\<close> does after the resolver\<close>

lemma match_run:
  "snd (match w url st) =
     (case getFileHash w url st of
        (Inr (Some v), st1) \<Rightarrow>
          if v = [] then st1 else snd (match_try w \<lparr>algorithm = HASH_ALGORITHM, value = v\<rparr> st1)
      | (_, st1) \<Rightarrow> st1)"
  by (simp add: match_def promise_defs split: prod.splits sum.splits option.splits)

lemma match_result:
  "fst (match w url st) =
     (case getFileHash w url st of
        (Inl e, st1) \<Rightarrow> Inl e
      | (Inr None, st1) \<Rightarrow> Inr None
      | (Inr (Some v), st1) \<Rightarrow>
          if v = [] then Inr None
          else (case fst (match_try w \<lparr>algorithm = HASH_ALGORITHM, value = v\<rparr> st1) of
                  Inl err \<Rightarrow> Inr None
                | Inr r \<Rightarrow> Inr r))"
  by (simp add: match_def promise_defs split: prod.splits sum.splits option.splits)

lemma match_try_unavailable:
  "\<not> isAvailable w \<Longrightarrow>
     match_try w h st = (Inl (if navigator_defined w then TypeError else ReferenceError), st)"
  by (simp add: match_try_def isAvailable_def await_def call_requestFileHandles_def)

lemma match_try_calls:
  "\<exists>cs. calls (snd (match_try w h st)) = calls st @ cs \<and> list_all is_read_only_call cs"
  by (auto simp: match_try_def promise_defs call_requestFileHandles_def call_getFile_def
           split: prod.splits sum.splits option.splits)

lemma match_try_requested:
  "isAvailable w \<Longrightarrow>
     \<exists>cs. calls (snd (match_try w h st)) = calls st @ cs \<and> requested_hashes cs = [[h]]"
  by (auto simp: match_try_def isAvailable_def promise_defs call_requestFileHandles_def
        call_getFile_def split: prod.splits sum.splits option.splits)

text \<open>
  What the pattern does handle: on a text of exactly three lines (one line, then
  \<open>oid sha256:\<close> followed by a non-empty run of word characters, then one more line, with
  line feeds between them and no line terminator at the end) the match covers the whole
  text, and \<open>_getFileHash\<close> resolves to the run of word characters as it is written.
\<close>

lemma getFileHash_three_line_pointer:
  assumes "str_includes url (ustr ''/resolve/main/onnx/'')"
      and "fetch w (replace_first (ustr ''/resolve/'') (ustr ''/raw/'') url) = Inr r"
      and "body_text r = Inr (pre @ [0x0A] @ ustr ''oid sha256:'' @ digest @ [0x0A] @ post)"
      and "\<forall>c \<in> set pre. \<not> is_line_terminator c"
      and "\<forall>c \<in> set post. \<not> is_line_terminator c"
      and "digest \<noteq> []"
      and "\<forall>c \<in> set digest. is_word_char c"
  shows "fst (getFileHash w url st) = Inr (Some digest)
       \<and> (isAvailable w \<longrightarrow>
            requested_hashes (new_calls st (snd (match w url st)))
              = [[\<lparr>algorithm = ustr ''SHA-256'', value = digest\<rparr>]])"
proof
  define body where "body = pre @ [0x0A] @ ustr ''oid sha256:'' @ digest @ [0x0A] @ post"
  have inc: "str_includes body (ustr ''oid sha256:'')"
    using str_includes_append [of "pre @ [0x0A]" "ustr ''oid sha256:''" "digest @ [0x0A] @ post"]
    by (simp add: body_def)
  have rep: "replace_oid None body = digest"
    unfolding body_def using assms(4-7) by (rule replace_oid_pointer)
  have bt: "body_text r = Inr body"
    using assms(3) by (simp only: body_def)
  show g: "fst (getFileHash w url st) = Inr (Some digest)"
    using assms(6) by (simp add: getFileHash_result [OF assms(1)] assms(2) bt inc rep or_null_def)
  show "isAvailable w \<longrightarrow>
            requested_hashes (new_calls st (snd (match w url st)))
              = [[\<lparr>algorithm = ustr ''SHA-256'', value = digest\<rparr>]]"
  proof
    assume av: "isAvailable w"
    let ?st1 = "st\<lparr>calls := calls st @ [Fetch (replace_first (ustr ''/resolve/'') (ustr ''/raw/'') url)]\<rparr>"
    have g2: "getFileHash w url st = (Inr (Some digest), ?st1)"
      using g getFileHash_run [of w url st] assms(1) by (simp add: prod_eq_iff)
    obtain cs where cs: "calls (snd (match_try w \<lparr>algorithm = HASH_ALGORITHM, value = digest\<rparr> ?st1))
         = calls ?st1 @ cs"
        "requested_hashes cs = [[\<lparr>algorithm = HASH_ALGORITHM, value = digest\<rparr>]]"
      using match_try_requested [OF av] by blast
    have "snd (match w url st) = snd (match_try w \<lparr>algorithm = HASH_ALGORITHM, value = digest\<rparr> ?st1)"
      using assms(6) by (simp add: match_run g2)
    then have "new_calls st (snd (match w url st))
        = Fetch (replace_first (ustr ''/resolve/'') (ustr ''/raw/'') url) # cs"
      using cs(1) by (simp add: new_calls_append)
    then show "requested_hashes (new_calls st (snd (match w url st)))
              = [[\<lparr>algorithm = ustr ''SHA-256'', value = digest\<rparr>]]"
      using cs(2) by (simp add: HASH_ALGORITHM_def)
  qed
qed

lemma pointer_text_lines:
  "\<forall>c \<in> set (ustr ''version https://git-lfs.github.com/spec/v1''). \<not> is_line_terminator c"
  "\<forall>c \<in> set (ustr ''size 12345''). \<not> is_line_terminator c"
  "ustr ''deadbeef'' \<noteq> []"
  "\<forall>c \<in> set (ustr ''deadbeef''). is_word_char c"
  by (simp_all add: ustr_def is_line_terminator_def is_word_char_def)

lemma pointer_getFileHash_served:
  assumes "fetch w model_raw_url = Inr \<lparr>status = 200, body_text = Inr pointer_text\<rparr>"
  shows "getFileHash w model_url st
     = (Inr (Some (ustr ''deadbeef'')), st\<lparr>calls := calls st @ [Fetch model_raw_url]\<rparr>)"
proof -
  have f: "fetch w (replace_first (ustr ''/resolve/'') (ustr ''/raw/'') model_url)
       = Inr \<lparr>status = 200, body_text = Inr pointer_text\<rparr>"
    using assms by (simp add: model_url_raw)
  have inc: "str_includes pointer_text (ustr ''oid sha256:'')"
    unfolding pointer_text_def
    using str_includes_append [of "ustr ''version https://git-lfs.github.com/spec/v1'' @ [0x0A]"
        "ustr ''oid sha256:''" "ustr ''deadbeef'' @ [0x0A] @ ustr ''size 12345''"]
    by simp
  have rep: "replace_oid None pointer_text = ustr ''deadbeef''"
    unfolding pointer_text_def using pointer_text_lines by (rule replace_oid_pointer)
  have ne: "ustr ''deadbeef'' \<noteq> []" by (simp add: ustr_def)
  have "fst (getFileHash w model_url st) = Inr (Some (ustr ''deadbeef''))"
    using ne by (simp add: getFileHash_result [OF model_url_eligible] f inc rep or_null_def)
  then show ?thesis
    using getFileHash_run [of w model_url st]
    by (simp add: prod_eq_iff model_url_eligible model_url_raw)
qed

lemma pointer_getFileHash:
  "getFileHash (example_world present (fetch_serves model_raw_url pointer_text)) model_url st
     = (Inr (Some (ustr ''deadbeef'')), st\<lparr>calls := calls st @ [Fetch model_raw_url]\<rparr>)"
  by (rule pointer_getFileHash_served) (simp add: example_world_def fetch_serves_def)

lemma getFileHash_nonempty:
  "fst (getFileHash w url st) = Inr (Some v) \<Longrightarrow> v \<noteq> []"
  by (auto simp: getFileHash_def promise_defs call_fetch_def or_null_def
        split: if_splits sum.splits prod.splits)

text \<open>
  Nothing in \<open>_getFileHash\<close> changes the case of the capture: a digest written in upper
  case is returned in upper case.
\<close>

lemma getFileHash_upper_case_kept:
  "fst (getFileHash (example_world True (fetch_serves model_raw_url upper_pointer_text))
          model_url empty_run) = Inr (Some (ustr ''ABCDEF''))"
proof -
  have u: "or_null (replace_oid None upper_pointer_text) = Some (ustr ''ABCDEF'')"
    by (simp add: upper_pointer_text_def ustr_def oid_regex_exec_def bol_def eol_def
          word_plus_def is_word_char_def is_line_terminator_def or_null_def)
  have ui: "str_includes upper_pointer_text (ustr ''oid sha256:'')"
    by (simp add: upper_pointer_text_def ustr_def)
  show ?thesis
    by (simp add: getFileHash_result [OF model_url_eligible] model_url_raw example_world_def
          fetch_serves_def u ui)
qed

lemma lfs_getFileHash:
  "getFileHash (example_world present (fetch_serves model_raw_url lfs_pointer_text)) model_url st
     = (Inr (Some (ustr ''deadbeef'' @ [0x0A])), st\<lparr>calls := calls st @ [Fetch model_raw_url]\<rparr>)"
proof -
  let ?w = "example_world present (fetch_serves model_raw_url lfs_pointer_text)"
  have l: "or_null (replace_oid None lfs_pointer_text) = Some (ustr ''deadbeef'' @ [0x0A])"
    by (simp add: lfs_pointer_text_def ustr_def oid_regex_exec_def bol_def eol_def
          word_plus_def is_word_char_def is_line_terminator_def or_null_def)
  have li: "str_includes lfs_pointer_text (ustr ''oid sha256:'')"
    by (simp add: lfs_pointer_text_def ustr_def)
  have "fst (getFileHash ?w model_url st) = Inr (Some (ustr ''deadbeef'' @ [0x0A]))"
    by (simp add: getFileHash_result [OF model_url_eligible] model_url_raw example_world_def
          fetch_serves_def l li)
  then show ?thesis
    using getFileHash_run [of ?w model_url st]
    by (simp add: prod_eq_iff model_url_eligible model_url_raw)
qed

text \<open>
  Claim C2. The claim fails on the code at a pointer record as it is served, every line
  ended by a line feed (\<open>version ...\<close>, \<open>oid sha256:deadbeef\<close>, \<open>size 12345\<close>): the match
  of the pattern stops before the last line feed and \<open>replace\<close> keeps what lies outside
  the match, so \<open>_getFileHash\<close> resolves to the digest followed by a line feed and not to
  the digest. \<open>match\<close> then asks the backend for a key whose value ends with a line feed,
  and misses the file that is stored under the bare digest; on the same record without
  the final line feed the lookup hits.
\<close>

theorem getFileHash_lfs_pointer_keeps_line_feed:
  "fst (getFileHash (example_world True (fetch_serves model_raw_url lfs_pointer_text))
          model_url deadbeef_run) = Inr (Some (ustr ''deadbeef'' @ [0x0A]))
   \<and> ustr ''deadbeef'' @ [0x0A] \<noteq> ustr ''deadbeef''
   \<and> requested_hashes (new_calls deadbeef_run
         (snd (match (example_world True (fetch_serves model_raw_url lfs_pointer_text))
                 model_url deadbeef_run)))
       = [[\<lparr>algorithm = ustr ''SHA-256'', value = ustr ''deadbeef'' @ [0x0A]\<rparr>]]
   \<and> fst (match (example_world True (fetch_serves model_raw_url lfs_pointer_text))
            model_url deadbeef_run) = Inr None
   \<and> fst (match (example_world True (fetch_serves model_raw_url pointer_text))
            model_url deadbeef_run) = Inr (Some (Response (Inr example_blob)))"
proof -
  let ?lfs = "example_world True (fetch_serves model_raw_url lfs_pointer_text)"
  let ?w = "example_world True (fetch_serves model_raw_url pointer_text)"
  have d: "ustr ''deadbeef'' @ [0x0A] \<noteq> ustr ''deadbeef''"
    by (simp add: ustr_def)
  have ne: "ustr ''deadbeef'' @ [0x0A] \<noteq> []" "ustr ''deadbeef'' \<noteq> []"
    by (simp_all add: ustr_def)
  have k: "\<lparr>algorithm = ustr ''SHA-256'', value = ustr ''deadbeef'' @ [0x0A]\<rparr> \<noteq> deadbeef_key"
    by (simp add: deadbeef_key_def ustr_def)
  have m: "match ?lfs model_url deadbeef_run
      = (Inr None, \<lparr>backend = [(deadbeef_key, example_blob)],
           calls = [Fetch model_raw_url,
                    RequestFileHandles
                      [\<lparr>algorithm = ustr ''SHA-256'', value = ustr ''deadbeef'' @ [0x0A]\<rparr>]
                      False]\<rparr>)"
    using ne(1) k
    by (simp add: match_def promise_defs lfs_getFileHash match_try_def
          call_requestFileHandles_def HASH_ALGORITHM_def)
       (simp add: example_world_def deadbeef_run_def)
  have h: "fst (match ?w model_url deadbeef_run) = Inr (Some (Response (Inr example_blob)))"
    using ne(2)
    by (simp add: match_def promise_defs pointer_getFileHash match_try_def
          call_requestFileHandles_def call_getFile_def first_of_def HASH_ALGORITHM_def)
       (simp add: example_world_def deadbeef_run_def deadbeef_key_def first_of_def)
  have c: "requested_hashes (new_calls deadbeef_run (snd (match ?lfs model_url deadbeef_run)))
      = [[\<lparr>algorithm = ustr ''SHA-256'', value = ustr ''deadbeef'' @ [0x0A]\<rparr>]]"
    by (simp add: m) (simp add: new_calls_def deadbeef_run_def)
  have g: "fst (getFileHash ?lfs model_url deadbeef_run) = Inr (Some (ustr ''deadbeef'' @ [0x0A]))"
    by (simp add: lfs_getFileHash)
  have n: "fst (match ?lfs model_url deadbeef_run) = Inr None"
    by (simp add: m)
  show ?thesis
    using g d c n h by (intro conjI)
qed

section \<open>The read path\<close>

lemma match_try_stored:
  assumes "\<And>hashes b. stored (snd (requestFileHandles w hashes False b)) = stored b"
      and "\<And>h b. stored (snd (getFile w h b)) = stored b"
  shows "stored (backend (snd (match_try w h st))) = stored (backend st)"
proof -
  have a: "\<And>hashes b r b'. requestFileHandles w hashes False b = (r, b') \<Longrightarrow> stored b' = stored b"
    using assms(1) by (metis snd_conv)
  have b: "\<And>h b r b'. getFile w h b = (r, b') \<Longrightarrow> stored b' = stored b"
    using assms(2) by (metis snd_conv)
  show ?thesis
    by (auto simp: match_try_def promise_defs call_requestFileHandles_def call_getFile_def a
           split: prod.splits sum.splits option.splits dest!: a b)
qed

lemma getFileHash_calls:
  "\<exists>cs. calls (snd (getFileHash w url st)) = calls st @ cs \<and> list_all is_read_only_call cs
      \<and> \<not> list_ex is_backend_call cs"
  by (simp add: getFileHash_run)

lemma getFileHash_backend: "backend (snd (getFileHash w url st)) = backend st"
  by (simp add: getFileHash_run)

lemma match_calls:
  "\<exists>cs. calls (snd (match w url st)) = calls st @ cs \<and> list_all is_read_only_call cs"
proof -
  obtain r st1 where g: "getFileHash w url st = (r, st1)" by (cases "getFileHash w url st")
  obtain cs where c1: "calls st1 = calls st @ cs" "list_all is_read_only_call cs"
    using getFileHash_calls [of w url st] g by auto
  show ?thesis
  proof (cases "\<exists>v. r = Inr (Some v) \<and> v \<noteq> []")
    case True
    then obtain v where v: "r = Inr (Some v)" "v \<noteq> []" by blast
    obtain cs2 where c2: "calls (snd (match_try w \<lparr>algorithm = HASH_ALGORITHM, value = v\<rparr> st1))
         = calls st1 @ cs2" "list_all is_read_only_call cs2"
      using match_try_calls by blast
    have "snd (match w url st) = snd (match_try w \<lparr>algorithm = HASH_ALGORITHM, value = v\<rparr> st1)"
      by (simp add: match_run g v)
    then show ?thesis using c1 c2 by simp
  next
    case False
    then have "snd (match w url st) = st1"
      by (auto simp: match_run g split: sum.splits option.splits)
    then show ?thesis using c1 by simp
  qed
qed

lemma match_try_fails_iff:
  "(\<exists>err. fst (match_try w h st) = Inl err) \<longleftrightarrow>
     \<not> navigator_defined w \<or> \<not> crossOriginStorage_in_navigator w
     \<or> (\<exists>e. fst (requestFileHandles w [h] False (backend st)) = Inl e)
     \<or> fst (requestFileHandles w [h] False (backend st)) = Inr []
     \<or> (\<exists>x xs b e. requestFileHandles w [h] False (backend st) = (Inr (x # xs), b)
           \<and> fst (getFile w x b) = Inl e)"
  by (auto simp: match_try_def promise_defs call_requestFileHandles_def call_getFile_def
        first_of_def split: prod.splits sum.splits option.splits list.splits)

text \<open>
  Claim C4. Once the resolver has produced a hash value, every way the backend can fail
  the lookup of the key \<open>{algorithm: "SHA-256", value}\<close> ends in \<open>undefined\<close>: no
  \<open>navigator\<close>, no \<open>crossOriginStorage\<close> in it, a handle request that the backend rejects
  (not found, not allowed, an I/O error, a hash it refuses), a handle request that yields
  no handle, a \<open>getFile\<close> that the backend rejects. And the absorption is no more than
  that: when the backend yields a handle and its file, \<open>match\<close> resolves to a response
  made of that file.
\<close>

theorem match_absorbs_backend_failure:
  assumes "fst (getFileHash w request st) = Inr (Some v)"
  shows "(\<not> navigator_defined w \<longrightarrow> fst (match w request st) = Inr None)
       \<and> (\<not> crossOriginStorage_in_navigator w \<longrightarrow> fst (match w request st) = Inr None)
       \<and> (\<forall>e b. requestFileHandles w [\<lparr>algorithm = ustr ''SHA-256'', value = v\<rparr>] False
                    (backend st) = (Inl e, b)
            \<longrightarrow> fst (match w request st) = Inr None)
       \<and> (\<forall>b. requestFileHandles w [\<lparr>algorithm = ustr ''SHA-256'', value = v\<rparr>] False
                    (backend st) = (Inr [], b)
            \<longrightarrow> fst (match w request st) = Inr None)
       \<and> (\<forall>h hs b e b'.
              requestFileHandles w [\<lparr>algorithm = ustr ''SHA-256'', value = v\<rparr>] False
                    (backend st) = (Inr (h # hs), b)
              \<and> getFile w h b = (Inl e, b')
            \<longrightarrow> fst (match w request st) = Inr None)
       \<and> (\<forall>h hs b payload b'.
              isAvailable w
              \<and> requestFileHandles w [\<lparr>algorithm = ustr ''SHA-256'', value = v\<rparr>] False
                    (backend st) = (Inr (h # hs), b)
              \<and> getFile w h b = (Inr payload, b')
            \<longrightarrow> fst (match w request st) = Inr (Some (Response (Inr payload))))"
proof -
  obtain st1 where g: "getFileHash w request st = (Inr (Some v), st1)"
    using assms by (cases "getFileHash w request st") simp
  have b: "backend st1 = backend st"
    using getFileHash_backend [of w request st] g by simp
  have ne: "v \<noteq> []"
    using assms by (rule getFileHash_nonempty)
  show ?thesis
    using ne
    by (auto simp: match_result g match_try_def promise_defs call_requestFileHandles_def
          call_getFile_def first_of_def b HASH_ALGORITHM_def isAvailable_def)
qed

theorem match_absorbs_backend_failure_witness:
  "fst (getFileHash (example_world True (fetch_serves model_raw_url pointer_text))
          model_url empty_run) = Inr (Some (ustr ''deadbeef''))
   \<and> requestFileHandles (example_world True (fetch_serves model_raw_url pointer_text))
        [\<lparr>algorithm = ustr ''SHA-256'', value = ustr ''deadbeef''\<rparr>] False (backend empty_run)
       = (Inl (DOMException ''NotFoundError''), [])
   \<and> fst (match (example_world True (fetch_serves model_raw_url pointer_text))
            model_url empty_run) = Inr None
   \<and> fst (getFileHash unreadable_world model_url deadbeef_run) = Inr (Some (ustr ''deadbeef''))
   \<and> requestFileHandles unreadable_world
        [\<lparr>algorithm = ustr ''SHA-256'', value = ustr ''deadbeef''\<rparr>] False (backend deadbeef_run)
       = (Inr [deadbeef_key], [(deadbeef_key, example_blob)])
   \<and> getFile unreadable_world deadbeef_key [(deadbeef_key, example_blob)]
       = (Inl (DOMException ''NotReadableError''), [(deadbeef_key, example_blob)])
   \<and> fst (match unreadable_world model_url deadbeef_run) = Inr None
   \<and> isAvailable (example_world True (fetch_serves model_raw_url pointer_text))
   \<and> requestFileHandles (example_world True (fetch_serves model_raw_url pointer_text))
        [\<lparr>algorithm = ustr ''SHA-256'', value = ustr ''deadbeef''\<rparr>] False (backend deadbeef_run)
       = (Inr [deadbeef_key], [(deadbeef_key, example_blob)])
   \<and> getFile (example_world True (fetch_serves model_raw_url pointer_text)) deadbeef_key
        [(deadbeef_key, example_blob)]
       = (Inr example_blob, [(deadbeef_key, example_blob)])
   \<and> fst (match (example_world True (fetch_serves model_raw_url pointer_text))
            model_url deadbeef_run) = Inr (Some (Response (Inr example_blob)))"
proof -
  let ?w = "example_world True (fetch_serves model_raw_url pointer_text)"
  let ?key = "\<lparr>algorithm = ustr ''SHA-256'', value = ustr ''deadbeef''\<rparr>"
  have g1: "fst (getFileHash ?w model_url empty_run) = Inr (Some (ustr ''deadbeef''))"
    by (simp add: pointer_getFileHash)
  have g2: "fst (getFileHash unreadable_world model_url deadbeef_run)
      = Inr (Some (ustr ''deadbeef''))"
    by (simp add: pointer_getFileHash_served unreadable_world_def example_world_def
          fetch_serves_def)
  have g3: "fst (getFileHash ?w model_url deadbeef_run) = Inr (Some (ustr ''deadbeef''))"
    by (simp add: pointer_getFileHash)
  have r1: "requestFileHandles ?w [?key] False (backend empty_run)
      = (Inl (DOMException ''NotFoundError''), [])"
    by (simp add: example_world_def empty_run_def)
  have r2: "requestFileHandles unreadable_world [?key] False (backend deadbeef_run)
      = (Inr [deadbeef_key], [(deadbeef_key, example_blob)])"
    by (simp add: unreadable_world_def example_world_def deadbeef_run_def deadbeef_key_def)
  have f2: "getFile unreadable_world deadbeef_key [(deadbeef_key, example_blob)]
      = (Inl (DOMException ''NotReadableError''), [(deadbeef_key, example_blob)])"
    by (simp add: unreadable_world_def example_world_def)
  have av: "isAvailable ?w"
    by (simp add: isAvailable_def example_world_def)
  have r3: "requestFileHandles ?w [?key] False (backend deadbeef_run)
      = (Inr [deadbeef_key], [(deadbeef_key, example_blob)])"
    by (simp add: example_world_def deadbeef_run_def deadbeef_key_def)
  have f3: "getFile ?w deadbeef_key [(deadbeef_key, example_blob)]
      = (Inr example_blob, [(deadbeef_key, example_blob)])"
    by (simp add: example_world_def)
  have m1: "fst (match ?w model_url empty_run) = Inr None"
    using match_absorbs_backend_failure [OF g1] r1 by blast
  have m2: "fst (match unreadable_world model_url deadbeef_run) = Inr None"
    using match_absorbs_backend_failure [OF g2] r2 f2 by blast
  have m3: "fst (match ?w model_url deadbeef_run) = Inr (Some (Response (Inr example_blob)))"
    using match_absorbs_backend_failure [OF g3] av r3 f3 by blast
  show ?thesis
    using g1 r1 m1 g2 r2 f2 m2 av r3 f3 m3 by (intro conjI)
qed

text \<open>
  Claim C10. Every call \<open>match\<close> makes is read-only: a \<open>fetch\<close>, a handle request
  without \<open>create\<close>, a \<open>getFile\<close>; it opens, writes and closes no stream. So whatever
  observation of the backend (\<open>stored\<close>, for instance the set of stored pairs) is left
  unchanged by handle requests without \<open>create\<close> and by \<open>getFile\<close> is left unchanged by
  \<open>match\<close>, whether it hits, misses, fails or rejects.
\<close>

theorem match_leaves_backend_unchanged:
  assumes "\<And>hashes b. stored (snd (requestFileHandles w hashes False b)) = stored b"
      and "\<And>h b. stored (snd (getFile w h b)) = stored b"
  shows "stored (backend (snd (match w request st))) = stored (backend st)
       \<and> list_all is_read_only_call (new_calls st (snd (match w request st)))"
proof
  obtain r st1 where g: "getFileHash w request st = (r, st1)"
    by (cases "getFileHash w request st")
  have b1: "backend st1 = backend st"
    using getFileHash_backend [of w request st] g by simp
  show "stored (backend (snd (match w request st))) = stored (backend st)"
    by (simp add: match_run g b1 match_try_stored [OF assms]
           split: sum.splits option.splits)
next
  obtain cs where "calls (snd (match w request st)) = calls st @ cs"
      "list_all is_read_only_call cs"
    using match_calls by blast
  then show "list_all is_read_only_call (new_calls st (snd (match w request st)))"
    by (simp add: new_calls_append)
qed

theorem match_leaves_backend_unchanged_witness:
  "(\<forall>hashes b. set (snd (requestFileHandles
        (example_world True (fetch_serves model_raw_url pointer_text)) hashes False b)) = set b)
   \<and> (\<forall>h b. set (snd (getFile
        (example_world True (fetch_serves model_raw_url pointer_text)) h b)) = set b)
   \<and> set (backend (snd (match (example_world True (fetch_serves model_raw_url pointer_text))
        model_url \<lparr>backend = [(\<lparr>algorithm = ustr ''SHA-256'', value = ustr ''deadbeef''\<rparr>,
                                example_blob)], calls = []\<rparr>)))
       = {(\<lparr>algorithm = ustr ''SHA-256'', value = ustr ''deadbeef''\<rparr>, example_blob)}
   \<and> list_all is_read_only_call (new_calls
        \<lparr>backend = [(\<lparr>algorithm = ustr ''SHA-256'', value = ustr ''deadbeef''\<rparr>, example_blob)],
         calls = []\<rparr>
        (snd (match (example_world True (fetch_serves model_raw_url pointer_text))
        model_url \<lparr>backend = [(\<lparr>algorithm = ustr ''SHA-256'', value = ustr ''deadbeef''\<rparr>,
                                example_blob)], calls = []\<rparr>)))"
proof -
  let ?w = "example_world True (fetch_serves model_raw_url pointer_text)"
  have h1: "\<And>hashes b. set (snd (requestFileHandles ?w hashes False b)) = set b"
    by (simp add: example_world_def)
  have h2: "\<And>h b. set (snd (getFile ?w h b)) = set b"
    by (simp add: example_world_def)
  show ?thesis
    using h1 h2 match_leaves_backend_unchanged [of set ?w model_url
        "\<lparr>backend = [(\<lparr>algorithm = ustr ''SHA-256'', value = ustr ''deadbeef''\<rparr>, example_blob)],
          calls = []\<rparr>", OF h1 h2]
    by simp
qed

section \<open>The digest primitive\<close>

declare toString16.simps [simp del]

lemma digit_char_hex: "d < 16 \<Longrightarrow> digit_char d = spec_hex_digit d"
proof -
  assume d: "d < 16"
  have "take 16 (ustr ''0123456789abcdefghijklmnopqrstuvwxyz'') = ustr ''0123456789abcdef''"
    by (simp add: ustr_def)
  then have "ustr ''0123456789abcdef'' ! d = ustr ''0123456789abcdefghijklmnopqrstuvwxyz'' ! d"
    using d by (metis nth_take)
  then show ?thesis by (simp add: digit_char_def spec_hex_digit_def)
qed

lemma toString16_byte:
  assumes "n < 256"
  shows "toString16 n = (if n < 16 then [digit_char n]
                         else [digit_char (n div 16), digit_char (n mod 16)])"
proof (cases "n < 16")
  case True
  then show ?thesis by (simp add: toString16.simps [of n])
next
  case False
  have "n div 16 < 16" using assms by simp
  then have "toString16 (n div 16) = [digit_char (n div 16)]"
    by (simp add: toString16.simps [of "n div 16"])
  then show ?thesis using False by (simp add: toString16.simps [of n])
qed

lemma byte_bound: "unat (b :: byte) < 256"
  using unsigned_less [of b, where ?'a = nat] by simp

lemma js_hex_byte:
  "padStart 2 (ustr ''0'') (toString16 (unat (b :: byte))) = spec_hex_byte b"
proof -
  have z: "spec_hex_digit 0 = 0x30" by (simp add: spec_hex_digit_def ustr_def)
  show ?thesis
  proof (cases "unat b < 16")
    case True
    then show ?thesis
      by (simp add: toString16_byte [OF byte_bound] padStart_def spec_hex_byte_def
            digit_char_hex z ustr_def)
  next
    case False
    have "unat b div 16 < 16" "unat b mod 16 < 16" using byte_bound [of b] by simp_all
    then show ?thesis using False
      by (simp add: toString16_byte [OF byte_bound] padStart_def spec_hex_byte_def
            digit_char_hex)
  qed
qed

lemma spec_hex_length: "length (spec_hex digest) = 2 * length digest"
  by (induction digest) (simp_all add: spec_hex_def spec_hex_byte_def)

lemma spec_hex_digit_mem: "d < 16 \<Longrightarrow> spec_hex_digit d \<in> set (ustr ''0123456789abcdef'')"
  unfolding spec_hex_digit_def by (rule nth_mem) (simp add: ustr_def)

lemma spec_hex_byte_chars: "set (spec_hex_byte b) \<subseteq> set (ustr ''0123456789abcdef'')"
proof -
  have "unat b div 16 < 16" "unat b mod 16 < 16" using byte_bound [of b] by simp_all
  then show ?thesis by (simp add: spec_hex_byte_def spec_hex_digit_mem)
qed

lemma spec_hex_chars: "set (spec_hex digest) \<subseteq> set (ustr ''0123456789abcdef'')"
  using spec_hex_byte_chars by (auto simp: spec_hex_def)

lemma spec_hex_nth:
  "i < length digest \<Longrightarrow>
     spec_hex digest ! (2 * i) = spec_hex_digit (unat (digest ! i) div 16)
     \<and> spec_hex digest ! (2 * i + 1) = spec_hex_digit (unat (digest ! i) mod 16)"
proof (induction digest arbitrary: i)
  case Nil
  then show ?case by simp
next
  case (Cons b digest)
  have unfold: "spec_hex (b # digest)
      = spec_hex_digit (unat b div 16) # spec_hex_digit (unat b mod 16) # spec_hex digest"
    by (simp add: spec_hex_def spec_hex_byte_def)
  show ?case
  proof (cases i)
    case 0
    then show ?thesis by (simp add: unfold)
  next
    case (Suc j)
    then have "j < length digest" using Cons.prems by simp
    then show ?thesis using Cons.IH [of j] by (simp add: unfold Suc)
  qed
qed

lemma upt_16: "[0..<16] = [0, 1, 2, 3, 4, 5, 6, 7, 8, 9, 10, 11, 12, 13, 14, 15 :: nat]"
  by code_simp

lemma hex_digit_value_digit: "d < 16 \<Longrightarrow> hex_digit_value (spec_hex_digit d) = d"
proof -
  have "list_all (\<lambda>d. hex_digit_value (spec_hex_digit d) = d) [0..<16]"
    unfolding upt_16 by (simp add: spec_hex_digit_def hex_digit_value_def ustr_def)
  then show "d < 16 \<Longrightarrow> hex_digit_value (spec_hex_digit d) = d"
    by (simp add: list_all_iff)
qed

lemma spec_hex_decodes:
  assumes "i < length digest"
  shows "16 * hex_digit_value (spec_hex digest ! (2 * i))
           + hex_digit_value (spec_hex digest ! (2 * i + 1)) = unat (digest ! i)"
proof -
  have "unat (digest ! i) div 16 < 16" "unat (digest ! i) mod 16 < 16"
    using byte_bound [of "digest ! i"] by simp_all
  then show ?thesis
    using spec_hex_nth [OF assms] by (simp add: hex_digit_value_digit)
qed

lemma getBlobHash_spec:
  "getBlobHash w blob st =
     (case arrayBuffer blob of
        Inl e \<Rightarrow> (Inl e, st)
      | Inr bytes \<Rightarrow>
          (case subtle_digest w (ustr ''SHA-256'') bytes of
             Inl e \<Rightarrow> Inl e
           | Inr digest \<Rightarrow> Inr \<lparr>algorithm = ustr ''SHA-256'', value = spec_hex digest\<rparr>,
           st\<lparr>calls := calls st @ [Digest (ustr ''SHA-256'') bytes]\<rparr>))"
  by (simp add: getBlobHash_def promise_defs call_digest_def join_empty_def spec_hex_def
        js_hex_byte split: sum.splits)

text \<open>
  Claim C8. When the payload can be read and \<open>crypto.subtle.digest\<close>, called with
  \<open>"SHA-256"\<close> and the payload's bytes, yields a digest, \<open>_getBlobHash\<close> resolves to the
  hash whose algorithm is \<open>"SHA-256"\<close> and whose value is the digest's bytes in order,
  each as exactly two characters out of \<open>0123456789abcdef\<close>, the high nibble first
  (zero-padded): the value has twice as many characters as the digest has bytes, and the
  two characters at positions \<open>2i\<close> and \<open>2i+1\<close> read back as byte \<open>i\<close>.
\<close>

theorem getBlobHash_lowercase_hex:
  assumes "arrayBuffer blob = Inr bytes"
      and "subtle_digest w (ustr ''SHA-256'') bytes = Inr digest"
  shows "fst (getBlobHash w blob st)
           = Inr \<lparr>algorithm = ustr ''SHA-256'', value = spec_hex digest\<rparr>
       \<and> new_calls st (snd (getBlobHash w blob st)) = [Digest (ustr ''SHA-256'') bytes]
       \<and> length (spec_hex digest) = 2 * length digest
       \<and> set (spec_hex digest) \<subseteq> set (ustr ''0123456789abcdef'')
       \<and> (\<forall>i < length digest.
            16 * hex_digit_value (spec_hex digest ! (2 * i))
              + hex_digit_value (spec_hex digest ! (2 * i + 1)) = unat (digest ! i))"
proof (intro conjI allI impI)
  show "fst (getBlobHash w blob st)
           = Inr \<lparr>algorithm = ustr ''SHA-256'', value = spec_hex digest\<rparr>"
    using assms by (simp add: getBlobHash_spec)
  show "new_calls st (snd (getBlobHash w blob st)) = [Digest (ustr ''SHA-256'') bytes]"
    using assms by (simp add: getBlobHash_spec new_calls_append)
  show "length (spec_hex digest) = 2 * length digest"
    by (rule spec_hex_length)
  show "set (spec_hex digest) \<subseteq> set (ustr ''0123456789abcdef'')"
    by (rule spec_hex_chars)
  show "16 * hex_digit_value (spec_hex digest ! (2 * i))
          + hex_digit_value (spec_hex digest ! (2 * i + 1)) = unat (digest ! i)"
    if "i < length digest" for i
    using that by (rule spec_hex_decodes)
qed

lemma example_spec_hex: "spec_hex [6, 3] = ustr ''0603''"
  by (simp add: spec_hex_def spec_hex_byte_def spec_hex_digit_def ustr_def)

lemma example_digest: "toy_digest (ustr ''SHA-256'') [1, 2, 3] = Inr [6, 3]"
  by (simp add: toy_digest_def)

theorem getBlobHash_lowercase_hex_witness:
  "arrayBuffer example_blob = Inr [1, 2, 3]
   \<and> subtle_digest (example_world True fetch_fails) (ustr ''SHA-256'') [1, 2, 3] = Inr [6, 3]
   \<and> fst (getBlobHash (example_world True fetch_fails) example_blob empty_run)
       = Inr \<lparr>algorithm = ustr ''SHA-256'', value = ustr ''0603''\<rparr>
   \<and> length (ustr ''0603'') = 2 * length [6 :: byte, 3]
   \<and> 16 * hex_digit_value (ustr ''0603'' ! (2 * 1)) + hex_digit_value (ustr ''0603'' ! (2 * 1 + 1))
       = unat ([6 :: byte, 3] ! 1)"
proof -
  have a: "arrayBuffer example_blob = Inr [1, 2, 3]"
    by (simp add: example_blob_def)
  have d: "subtle_digest (example_world True fetch_fails) (ustr ''SHA-256'') [1, 2, 3] = Inr [6, 3]"
    by (simp add: example_world_def example_digest)
  have i: "(1 :: nat) < length [6 :: byte, 3]" by simp
  show ?thesis
    using a d i getBlobHash_lowercase_hex [OF a d, of empty_run]
    by (simp only: example_spec_hex)
qed

section \<open>The write path\<close>

lemma example_getBlobHash:
  "getBlobHash (example_world present f) example_blob st
     = (Inr example_key, st\<lparr>calls := calls st @ [Digest (ustr ''SHA-256'') [1, 2, 3]]\<rparr>)"
  by (simp add: getBlobHash_spec example_blob_def example_world_def example_digest
        example_spec_hex example_key_def)

lemma example_put:
  "put (example_world True f) request (Response (Inr example_blob)) empty_run
     = (Inr (), \<lparr>backend = [(example_key, example_blob)],
                 calls = [Digest (ustr ''SHA-256'') [1, 2, 3],
                          RequestFileHandles [example_key] True,
                          CreateWritable example_key,
                          Write example_key example_blob,
                          Close example_key]\<rparr>)"
  by (simp add: put_def promise_defs example_getBlobHash call_requestFileHandles_def
        call_createWritable_def call_write_def call_close_def first_of_def empty_run_def)
     (simp add: example_world_def)

lemma put_trace:
  "\<exists>cs. calls (snd (put w request response st)) = calls st @ cs
     \<and> list_all (\<lambda>c. \<not> is_network_call c) cs
     \<and> (\<forall>hashes create. RequestFileHandles hashes create \<in> set cs \<longrightarrow>
           create \<and> (\<exists>blob bytes digest. response_blob response = Inr blob
              \<and> arrayBuffer blob = Inr bytes
              \<and> subtle_digest w (ustr ''SHA-256'') bytes = Inr digest
              \<and> hashes = [\<lparr>algorithm = ustr ''SHA-256'', value = spec_hex digest\<rparr>]))
     \<and> (\<forall>ws b. Write ws b \<in> set cs \<longrightarrow>
           response_blob response = Inr b
           \<and> (\<exists>bytes digest h hs b1 b2. arrayBuffer b = Inr bytes
                \<and> subtle_digest w (ustr ''SHA-256'') bytes = Inr digest
                \<and> requestFileHandles w
                     [\<lparr>algorithm = ustr ''SHA-256'', value = spec_hex digest\<rparr>] True (backend st)
                    = (Inr (h # hs), b1)
                \<and> createWritable w h b1 = (Inr ws, b2)))"
  by (auto simp: put_def promise_defs call_requestFileHandles_def call_createWritable_def
        call_write_def call_close_def first_of_def getBlobHash_spec
        split: sum.splits prod.splits list.splits option.splits)

text \<open>
  Claim C3. Among the calls \<open>put\<close> makes there is no \<open>fetch\<close>, which is the only way the
  hash resolver reads the side channel. Every handle request of \<open>put\<close> asks, with
  \<open>create\<close>, for exactly one key: algorithm \<open>"SHA-256"\<close> and the hexadecimal encoding of
  the digest that \<open>crypto.subtle.digest\<close> gives for the bytes of the response's own
  payload. Every write of \<open>put\<close> writes that same payload to the stream opened on the
  first handle the backend returned for that key.
\<close>

theorem put_key_is_own_digest:
  "list_all (\<lambda>c. \<not> is_network_call c) (new_calls st (snd (put w request response st)))
   \<and> (\<forall>hashes create.
        RequestFileHandles hashes create \<in> set (new_calls st (snd (put w request response st)))
        \<longrightarrow> create \<and> (\<exists>blob bytes digest. response_blob response = Inr blob
              \<and> arrayBuffer blob = Inr bytes
              \<and> subtle_digest w (ustr ''SHA-256'') bytes = Inr digest
              \<and> hashes = [\<lparr>algorithm = ustr ''SHA-256'', value = spec_hex digest\<rparr>]))
   \<and> (\<forall>ws b. Write ws b \<in> set (new_calls st (snd (put w request response st)))
        \<longrightarrow> response_blob response = Inr b
           \<and> (\<exists>bytes digest h hs b1 b2. arrayBuffer b = Inr bytes
                \<and> subtle_digest w (ustr ''SHA-256'') bytes = Inr digest
                \<and> requestFileHandles w
                     [\<lparr>algorithm = ustr ''SHA-256'', value = spec_hex digest\<rparr>] True (backend st)
                    = (Inr (h # hs), b1)
                \<and> createWritable w h b1 = (Inr ws, b2)))"
proof -
  obtain cs where cs: "calls (snd (put w request response st)) = calls st @ cs"
    and rest: "list_all (\<lambda>c. \<not> is_network_call c) cs
     \<and> (\<forall>hashes create. RequestFileHandles hashes create \<in> set cs \<longrightarrow>
           create \<and> (\<exists>blob bytes digest. response_blob response = Inr blob
              \<and> arrayBuffer blob = Inr bytes
              \<and> subtle_digest w (ustr ''SHA-256'') bytes = Inr digest
              \<and> hashes = [\<lparr>algorithm = ustr ''SHA-256'', value = spec_hex digest\<rparr>]))
     \<and> (\<forall>ws b. Write ws b \<in> set cs \<longrightarrow>
           response_blob response = Inr b
           \<and> (\<exists>bytes digest h hs b1 b2. arrayBuffer b = Inr bytes
                \<and> subtle_digest w (ustr ''SHA-256'') bytes = Inr digest
                \<and> requestFileHandles w
                     [\<lparr>algorithm = ustr ''SHA-256'', value = spec_hex digest\<rparr>] True (backend st)
                    = (Inr (h # hs), b1)
                \<and> createWritable w h b1 = (Inr ws, b2)))"
    using put_trace [of w request response st] by blast
  have nc: "new_calls st (snd (put w request response st)) = cs"
    using cs by (rule new_calls_append)
  show ?thesis unfolding nc by (rule rest)
qed

theorem put_key_is_own_digest_witness:
  "RequestFileHandles [example_key] True
     \<in> set (new_calls empty_run
         (snd (put (example_world True fetch_fails) model_url (Response (Inr example_blob))
                 empty_run)))
   \<and> Write example_key example_blob
     \<in> set (new_calls empty_run
         (snd (put (example_world True fetch_fails) model_url (Response (Inr example_blob))
                 empty_run)))
   \<and> (\<exists>blob bytes digest. response_blob (Response (Inr example_blob)) = Inr blob
        \<and> arrayBuffer blob = Inr bytes
        \<and> subtle_digest (example_world True fetch_fails) (ustr ''SHA-256'') bytes = Inr digest
        \<and> [example_key] = [\<lparr>algorithm = ustr ''SHA-256'', value = spec_hex digest\<rparr>])
   \<and> response_blob (Response (Inr example_blob)) = Inr example_blob"
proof -
  let ?calls = "new_calls empty_run
         (snd (put (example_world True fetch_fails) model_url (Response (Inr example_blob))
                 empty_run))"
  have c: "?calls = [Digest (ustr ''SHA-256'') [1, 2, 3],
                          RequestFileHandles [example_key] True,
                          CreateWritable example_key,
                          Write example_key example_blob,
                          Close example_key]"
    by (simp add: example_put) (simp add: new_calls_def empty_run_def)
  have m1: "RequestFileHandles [example_key] True \<in> set ?calls"
    by (simp add: c)
  have m2: "Write example_key example_blob \<in> set ?calls"
    by (simp add: c)
  show ?thesis
    using m1 m2 put_key_is_own_digest [of empty_run "example_world True fetch_fails" model_url
        "Response (Inr example_blob)"]
    by blast
qed

text \<open>
  Claim C6. Whichever step of \<open>put\<close> fails, \<open>put\<close> rejects with that very error, nothing
  being caught: \<open>response.blob()\<close> rejects; the blob cannot be read; \<open>crypto.subtle.digest\<close>
  rejects; there is no \<open>navigator\<close>, or no \<open>crossOriginStorage\<close> in it; the backend rejects
  the handle request for the payload's own key (with \<open>create\<close>), or yields no handle;
  \<open>createWritable\<close> on the first handle rejects; \<open>write\<close> of the payload on the stream
  rejects; \<open>close\<close> of the stream rejects. Only when the backend has accepted all four of
  its calls does \<open>put\<close> resolve.
\<close>

theorem put_propagates_failure:
  "(\<forall>e. response_blob response = Inl e \<longrightarrow> fst (put w request response st) = Inl e)
   \<and> (\<forall>payload. response_blob response = Inr payload \<longrightarrow>
        (\<forall>e. arrayBuffer payload = Inl e \<longrightarrow> fst (put w request response st) = Inl e)
      \<and> (\<forall>bytes. arrayBuffer payload = Inr bytes \<longrightarrow>
           (\<forall>e. subtle_digest w (ustr ''SHA-256'') bytes = Inl e
              \<longrightarrow> fst (put w request response st) = Inl e)
         \<and> (\<forall>digest. subtle_digest w (ustr ''SHA-256'') bytes = Inr digest \<longrightarrow>
              (\<not> navigator_defined w
                 \<longrightarrow> fst (put w request response st) = Inl ReferenceError)
            \<and> (navigator_defined w \<and> \<not> crossOriginStorage_in_navigator w
                 \<longrightarrow> fst (put w request response st) = Inl TypeError)
            \<and> (isAvailable w \<longrightarrow>
                 (\<forall>e b. requestFileHandles w
                           [\<lparr>algorithm = ustr ''SHA-256'', value = spec_hex digest\<rparr>] True
                           (backend st) = (Inl e, b)
                    \<longrightarrow> fst (put w request response st) = Inl e)
               \<and> (\<forall>b. requestFileHandles w
                           [\<lparr>algorithm = ustr ''SHA-256'', value = spec_hex digest\<rparr>] True
                           (backend st) = (Inr [], b)
                    \<longrightarrow> fst (put w request response st) = Inl TypeError)
               \<and> (\<forall>h hs b1. requestFileHandles w
                           [\<lparr>algorithm = ustr ''SHA-256'', value = spec_hex digest\<rparr>] True
                           (backend st) = (Inr (h # hs), b1) \<longrightarrow>
                    (\<forall>e b2. createWritable w h b1 = (Inl e, b2)
                       \<longrightarrow> fst (put w request response st) = Inl e)
                  \<and> (\<forall>ws b2. createWritable w h b1 = (Inr ws, b2) \<longrightarrow>
                       (\<forall>e b3. write w ws payload b2 = (Inl e, b3)
                          \<longrightarrow> fst (put w request response st) = Inl e)
                     \<and> (\<forall>b3. write w ws payload b2 = (Inr (), b3) \<longrightarrow>
                          (\<forall>e b4. close w ws b3 = (Inl e, b4)
                             \<longrightarrow> fst (put w request response st) = Inl e)
                        \<and> (\<forall>b4. close w ws b3 = (Inr (), b4)
                             \<longrightarrow> fst (put w request response st) = Inr ()
                               \<and> backend (snd (put w request response st)) = b4))))))))"
  by (simp add: put_def promise_defs getBlobHash_spec call_requestFileHandles_def
        call_createWritable_def call_write_def call_close_def first_of_def isAvailable_def)

theorem put_propagates_failure_witness:
  "response_blob (Response (Inr example_blob)) = Inr example_blob
   \<and> arrayBuffer example_blob = Inr [1, 2, 3]
   \<and> subtle_digest close_fails_world (ustr ''SHA-256'') [1, 2, 3] = Inr [6, 3]
   \<and> isAvailable close_fails_world
   \<and> requestFileHandles close_fails_world
        [\<lparr>algorithm = ustr ''SHA-256'', value = spec_hex [6, 3]\<rparr>] True (backend empty_run)
       = (Inr [example_key], [])
   \<and> createWritable close_fails_world example_key [] = (Inr example_key, [])
   \<and> write close_fails_world example_key example_blob []
       = (Inr (), [(example_key, example_blob)])
   \<and> close close_fails_world example_key [(example_key, example_blob)]
       = (Inl (DOMException ''InvalidStateError''), [(example_key, example_blob)])
   \<and> fst (put close_fails_world model_url (Response (Inr example_blob)) empty_run)
       = Inl (DOMException ''InvalidStateError'')
   \<and> subtle_digest quota_world (ustr ''SHA-256'') [1, 2, 3] = Inr [6, 3]
   \<and> isAvailable quota_world
   \<and> requestFileHandles quota_world
        [\<lparr>algorithm = ustr ''SHA-256'', value = spec_hex [6, 3]\<rparr>] True (backend empty_run)
       = (Inr [example_key], [])
   \<and> createWritable quota_world example_key [] = (Inr example_key, [])
   \<and> write quota_world example_key example_blob []
       = (Inl (DOMException ''QuotaExceededError''), [])
   \<and> fst (put quota_world model_url (Response (Inr example_blob)) empty_run)
       = Inl (DOMException ''QuotaExceededError'')
   \<and> subtle_digest (example_world False fetch_fails) (ustr ''SHA-256'') [1, 2, 3] = Inr [6, 3]
   \<and> navigator_defined (example_world False fetch_fails)
   \<and> \<not> crossOriginStorage_in_navigator (example_world False fetch_fails)
   \<and> fst (put (example_world False fetch_fails) model_url (Response (Inr example_blob)) empty_run)
       = Inl TypeError
   \<and> response_blob (Response (Inl TypeError)) = Inl TypeError
   \<and> fst (put quota_world model_url (Response (Inl TypeError)) empty_run) = Inl TypeError
   \<and> close (example_world True fetch_fails) example_key [(example_key, example_blob)]
       = (Inr (), [(example_key, example_blob)])
   \<and> fst (put (example_world True fetch_fails) model_url (Response (Inr example_blob)) empty_run)
       = Inr ()"
proof -
  let ?key = "\<lparr>algorithm = ustr ''SHA-256'', value = spec_hex [6, 3]\<rparr>"
  let ?ok = "example_world True fetch_fails"
  let ?off = "example_world False fetch_fails"
  have s0: "response_blob (Response (Inr example_blob)) = Inr example_blob" by simp
  have s1: "arrayBuffer example_blob = Inr [1, 2, 3]" by (simp add: example_blob_def)
  have key: "?key = example_key" by (simp add: example_key_def example_spec_hex)
  have c2: "subtle_digest close_fails_world (ustr ''SHA-256'') [1, 2, 3] = Inr [6, 3]"
    by (simp add: close_fails_world_def example_world_def example_digest)
  have c3: "isAvailable close_fails_world"
    by (simp add: isAvailable_def close_fails_world_def example_world_def)
  have c4: "requestFileHandles close_fails_world [?key] True (backend empty_run)
      = (Inr [example_key], [])"
    by (simp add: key) (simp add: close_fails_world_def example_world_def empty_run_def)
  have c5: "createWritable close_fails_world example_key [] = (Inr example_key, [])"
    by (simp add: close_fails_world_def example_world_def)
  have c6: "write close_fails_world example_key example_blob []
      = (Inr (), [(example_key, example_blob)])"
    by (simp add: close_fails_world_def example_world_def)
  have c7: "close close_fails_world example_key [(example_key, example_blob)]
      = (Inl (DOMException ''InvalidStateError''), [(example_key, example_blob)])"
    by (simp add: close_fails_world_def example_world_def)
  have q2: "subtle_digest quota_world (ustr ''SHA-256'') [1, 2, 3] = Inr [6, 3]"
    by (simp add: quota_world_def example_world_def example_digest)
  have q3: "isAvailable quota_world"
    by (simp add: isAvailable_def quota_world_def example_world_def)
  have q4: "requestFileHandles quota_world [?key] True (backend empty_run)
      = (Inr [example_key], [])"
    by (simp add: key) (simp add: quota_world_def example_world_def empty_run_def)
  have q5: "createWritable quota_world example_key [] = (Inr example_key, [])"
    by (simp add: quota_world_def example_world_def)
  have q6: "write quota_world example_key example_blob []
      = (Inl (DOMException ''QuotaExceededError''), [])"
    by (simp add: quota_world_def example_world_def)
  have o2: "subtle_digest ?off (ustr ''SHA-256'') [1, 2, 3] = Inr [6, 3]"
    by (simp add: example_world_def example_digest)
  have o3: "navigator_defined ?off" "\<not> crossOriginStorage_in_navigator ?off"
    by (simp_all add: example_world_def)
  have r0: "response_blob (Response (Inl TypeError)) = Inl TypeError" by simp
  have k2: "subtle_digest ?ok (ustr ''SHA-256'') [1, 2, 3] = Inr [6, 3]"
    by (simp add: example_world_def example_digest)
  have k3: "isAvailable ?ok"
    by (simp add: isAvailable_def example_world_def)
  have k4: "requestFileHandles ?ok [?key] True (backend empty_run) = (Inr [example_key], [])"
    by (simp add: key) (simp add: example_world_def empty_run_def)
  have k5: "createWritable ?ok example_key [] = (Inr example_key, [])"
    by (simp add: example_world_def)
  have k6: "write ?ok example_key example_blob [] = (Inr (), [(example_key, example_blob)])"
    by (simp add: example_world_def)
  have k7: "close ?ok example_key [(example_key, example_blob)]
      = (Inr (), [(example_key, example_blob)])"
    by (simp add: example_world_def)
  have a: "fst (put close_fails_world model_url (Response (Inr example_blob)) empty_run)
       = Inl (DOMException ''InvalidStateError'')"
    using put_propagates_failure [of "Response (Inr example_blob)" close_fails_world model_url
        empty_run] s0 s1 c2 c3 c4 c5 c6 c7
    by blast
  have b: "fst (put quota_world model_url (Response (Inr example_blob)) empty_run)
       = Inl (DOMException ''QuotaExceededError'')"
    using put_propagates_failure [of "Response (Inr example_blob)" quota_world model_url
        empty_run] s0 s1 q2 q3 q4 q5 q6
    by blast
  have c: "fst (put ?off model_url (Response (Inr example_blob)) empty_run) = Inl TypeError"
    using put_propagates_failure [of "Response (Inr example_blob)" ?off model_url empty_run]
      s0 s1 o2 o3
    by blast
  have d: "fst (put quota_world model_url (Response (Inl TypeError)) empty_run) = Inl TypeError"
    using put_propagates_failure [of "Response (Inl TypeError)" quota_world model_url empty_run]
      r0
    by blast
  have e: "fst (put ?ok model_url (Response (Inr example_blob)) empty_run) = Inr ()"
    using put_propagates_failure [of "Response (Inr example_blob)" ?ok model_url empty_run]
      s0 s1 k2 k3 k4 k5 k6 k7
    by blast
  show ?thesis
    using s0 s1 c2 c3 c4 c5 c6 c7 a q2 q3 q4 q5 q6 b o2 o3 c r0 d k7 e by (intro conjI)
qed

lemma put_requested:
  "requested_hashes (new_calls st (snd (put w request response st))) =
     (case response_blob response of
        Inl e \<Rightarrow> []
      | Inr blob \<Rightarrow> (case fst (getBlobHash w blob st) of
           Inl e \<Rightarrow> []
         | Inr key \<Rightarrow> if isAvailable w then [[key]] else []))"
proof -
  have "\<exists>cs. calls (snd (put w request response st)) = calls st @ cs
     \<and> requested_hashes cs =
     (case response_blob response of
        Inl e \<Rightarrow> []
      | Inr blob \<Rightarrow> (case fst (getBlobHash w blob st) of
           Inl e \<Rightarrow> []
         | Inr key \<Rightarrow> if isAvailable w then [[key]] else []))"
    by (auto simp: put_def promise_defs call_requestFileHandles_def call_createWritable_def
        call_write_def call_close_def first_of_def getBlobHash_spec isAvailable_def
        split: sum.splits prod.splits list.splits option.splits)
  then show ?thesis by (auto simp: new_calls_append)
qed

text \<open>
  Claim C9. The key \<open>put\<close> asks the backend for depends on the payload's bytes alone:
  two calls whose payloads have the same bytes, whatever the requests, the MIME types
  and the states of the backend, ask for the same key; and with the same response, \<open>put\<close>
  does exactly the same for any two requests.
\<close>

theorem put_key_depends_on_payload_only:
  assumes "response_blob response1 = Inr blob1"
      and "response_blob response2 = Inr blob2"
      and "arrayBuffer blob1 = Inr bytes"
      and "arrayBuffer blob2 = Inr bytes"
  shows "requested_hashes (new_calls st1 (snd (put w request1 response1 st1)))
           = requested_hashes (new_calls st2 (snd (put w request2 response2 st2)))
       \<and> fst (getBlobHash w blob1 st1) = fst (getBlobHash w blob2 st2)
       \<and> put w request1 response1 st1 = put w request2 response1 st1"
proof (intro conjI)
  show k: "fst (getBlobHash w blob1 st1) = fst (getBlobHash w blob2 st2)"
    using assms(3,4) by (simp add: getBlobHash_spec)
  show "requested_hashes (new_calls st1 (snd (put w request1 response1 st1)))
           = requested_hashes (new_calls st2 (snd (put w request2 response2 st2)))"
    by (simp add: put_requested assms(1,2) k)
  show "put w request1 response1 st1 = put w request2 response1 st1"
    by (simp add: put_def)
qed

theorem put_key_depends_on_payload_only_witness:
  "response_blob (Response (Inr example_blob)) = Inr example_blob
   \<and> response_blob (Response (Inr example_text_blob)) = Inr example_text_blob
   \<and> arrayBuffer example_blob = Inr [1, 2, 3]
   \<and> arrayBuffer example_text_blob = Inr [1, 2, 3]
   \<and> example_blob \<noteq> example_text_blob
   \<and> model_url \<noteq> config_url
   \<and> requested_hashes (new_calls empty_run
        (snd (put (example_world True fetch_fails) model_url
                (Response (Inr example_blob)) empty_run)))
       = requested_hashes (new_calls \<lparr>backend = [(example_key, example_blob)], calls = []\<rparr>
        (snd (put (example_world True fetch_fails) config_url
                (Response (Inr example_text_blob))
                \<lparr>backend = [(example_key, example_blob)], calls = []\<rparr>)))
   \<and> requested_hashes (new_calls empty_run
        (snd (put (example_world True fetch_fails) model_url
                (Response (Inr example_blob)) empty_run)))
       = [[example_key]]"
proof -
  have r1: "response_blob (Response (Inr example_blob)) = Inr example_blob" by simp
  have r2: "response_blob (Response (Inr example_text_blob)) = Inr example_text_blob" by simp
  have b1: "arrayBuffer example_blob = Inr [1, 2, 3]" by (simp add: example_blob_def)
  have b2: "arrayBuffer example_text_blob = Inr [1, 2, 3]" by (simp add: example_text_blob_def)
  have d1: "example_blob \<noteq> example_text_blob"
    by (simp add: example_blob_def example_text_blob_def ustr_def)
  have d2: "model_url \<noteq> config_url"
    by (simp add: model_url_def config_url_def ustr_def)
  have c: "requested_hashes (new_calls empty_run
        (snd (put (example_world True fetch_fails) model_url
                (Response (Inr example_blob)) empty_run))) = [[example_key]]"
    by (simp add: example_put) (simp add: new_calls_def empty_run_def)
  have e: "requested_hashes (new_calls empty_run
        (snd (put (example_world True fetch_fails) model_url
                (Response (Inr example_blob)) empty_run)))
       = requested_hashes (new_calls \<lparr>backend = [(example_key, example_blob)], calls = []\<rparr>
        (snd (put (example_world True fetch_fails) config_url
                (Response (Inr example_text_blob))
                \<lparr>backend = [(example_key, example_blob)], calls = []\<rparr>)))"
    using put_key_depends_on_payload_only [OF r1 r2 b1 b2, of empty_run
        "example_world True fetch_fails" model_url
        "\<lparr>backend = [(example_key, example_blob)], calls = []\<rparr>" config_url]
    by (rule conjunct1)
  show ?thesis
    using r1 r2 b1 b2 d1 d2 e c by (intro conjI)
qed

section \<open>The availability gate\<close>

text \<open>
  Claim C5, as amended. When \<open>isAvailable\<close> is false: \<open>put\<close> rejects, for every request
  and response; neither \<open>put\<close> nor \<open>match\<close> calls the backend, whose state stays as it
  was; and \<open>match\<close> resolves to \<open>undefined\<close> whenever the hash resolver itself does not
  reject.
\<close>

theorem unavailable_match_and_put:
  assumes "\<not> isAvailable w"
  shows "(\<exists>e. fst (put w request response st) = Inl e)
       \<and> \<not> list_ex is_backend_call (new_calls st (snd (put w request response st)))
       \<and> backend (snd (put w request response st)) = backend st
       \<and> \<not> list_ex is_backend_call (new_calls st (snd (match w request st)))
       \<and> backend (snd (match w request st)) = backend st
       \<and> (\<forall>hashValue. fst (getFileHash w request st) = Inr hashValue
            \<longrightarrow> fst (match w request st) = Inr None)"
proof -
  have rfh: "\<And>hs c s. call_requestFileHandles w hs c s
      = (Inl (if navigator_defined w then TypeError else ReferenceError), s)"
    using assms by (simp add: call_requestFileHandles_def isAvailable_def)
  have p1: "\<exists>e. fst (put w request response st) = Inl e"
    by (simp add: put_def getBlobHash_def promise_defs call_digest_def rfh
          split: sum.splits prod.splits)
  have p2: "\<exists>cs. calls (snd (put w request response st)) = calls st @ cs
       \<and> \<not> list_ex is_backend_call cs"
    by (simp add: put_def getBlobHash_def promise_defs call_digest_def rfh
          split: sum.splits prod.splits)
  have p3: "backend (snd (put w request response st)) = backend st"
    by (simp add: put_def getBlobHash_def promise_defs call_digest_def rfh
          split: sum.splits prod.splits)
  obtain r st1 where g: "getFileHash w request st = (r, st1)"
    by (cases "getFileHash w request st")
  have st1: "backend st1 = backend st"
      "\<exists>cs. calls st1 = calls st @ cs \<and> \<not> list_ex is_backend_call cs"
    using getFileHash_backend [of w request st] getFileHash_calls [of w request st] g by auto
  have m0: "snd (match w request st) = st1"
    by (simp add: match_run g match_try_unavailable [OF assms] split: sum.splits option.splits)
  have m3: "\<forall>hashValue. fst (getFileHash w request st) = Inr hashValue
            \<longrightarrow> fst (match w request st) = Inr None"
    by (simp add: match_result g match_try_unavailable [OF assms]
          split: sum.splits option.splits)
  from p2 obtain cs where cs: "calls (snd (put w request response st)) = calls st @ cs"
       "\<not> list_ex is_backend_call cs" by blast
  from st1 obtain cs' where cs': "calls st1 = calls st @ cs'" "\<not> list_ex is_backend_call cs'"
    by blast
  show ?thesis
    using p1 p3 m3 st1(1) cs cs' by (simp add: m0 new_calls_append)
qed

theorem unavailable_match_and_put_witness:
  "\<not> isAvailable (example_world False (fetch_serves model_raw_url pointer_text))
   \<and> (\<exists>e. fst (put (example_world False (fetch_serves model_raw_url pointer_text))
                  model_url (Response (Inr example_blob)) empty_run) = Inl e)
   \<and> \<not> list_ex is_backend_call (new_calls empty_run
         (snd (put (example_world False (fetch_serves model_raw_url pointer_text))
                  model_url (Response (Inr example_blob)) empty_run)))
   \<and> \<not> list_ex is_backend_call (new_calls empty_run
         (snd (match (example_world False (fetch_serves model_raw_url pointer_text))
                  model_url empty_run)))
   \<and> fst (getFileHash (example_world False (fetch_serves model_raw_url pointer_text))
            model_url empty_run) = Inr (Some (ustr ''deadbeef''))
   \<and> fst (match (example_world False (fetch_serves model_raw_url pointer_text))
            model_url empty_run) = Inr None"
proof -
  let ?w = "example_world False (fetch_serves model_raw_url pointer_text)"
  have h: "\<not> isAvailable ?w"
    by (simp add: isAvailable_def example_world_def)
  have g: "fst (getFileHash ?w model_url empty_run) = Inr (Some (ustr ''deadbeef''))"
    by (simp add: pointer_getFileHash)
  show ?thesis
    using h g unavailable_match_and_put [OF h, of model_url "Response (Inr example_blob)"
        empty_run]
    by simp
qed

text \<open>
  The claim as first stated fails: without the backend and with the network down, \<open>match\<close>
  on an eligible location rejects instead of resolving to \<open>undefined\<close>.
\<close>

theorem unavailable_match_rejects_counterexample:
  "\<not> isAvailable (example_world False fetch_fails)
   \<and> fst (match (example_world False fetch_fails) model_url empty_run) = Inl TypeError"
proof -
  have h: "\<not> isAvailable (example_world False fetch_fails)"
    by (simp add: isAvailable_def example_world_def)
  have f: "fetch (example_world False fetch_fails)
        (replace_first (ustr ''/resolve/'') (ustr ''/raw/'') model_url) = Inl TypeError"
    by (simp add: example_world_def fetch_fails_def)
  have g: "fst (getFileHash (example_world False fetch_fails) model_url empty_run) = Inl TypeError"
    by (simp add: getFileHash_result [OF model_url_eligible] f)
  show ?thesis
    using h match_rejects_with_getFileHash [OF g] by simp
qed

end
